theory Spec2Isabelle
  imports Complex_Main "HOL-Library.Multiset" "HOL-Library.AList"
begin

unbundle bit_operations_syntax

section \<open>Numbers\<close>

text \<open>
  The numbers of the worker are JavaScript numbers, that is IEEE 754 binary64 values: a
  finite value, \<open>Infinity\<close>, \<open>-Infinity\<close> or \<open>NaN\<close>. A finite value is kept as the real it
  denotes; the results of the arithmetic are always representable, an input of the theorems
  may be any real. The two zeros are not told apart: the sign of a zero only shows in a
  division by zero, where the zero is taken as \<open>+0\<close>.

  \<open>roundTo p emax\<close> rounds a real to the format with \<open>p\<close> significant bits and largest
  exponent \<open>emax\<close>, to nearest with ties to even: \<open>exponent\<close> finds the binade of the
  absolute value by halving or doubling, stopping at \<open>emax + 1\<close> above and at the smallest
  normal exponent \<open>1 - emax\<close> below (so that the subnormal numbers share one spacing), the
  value is rounded to a multiple of the spacing \<open>2 powi (e - (p - 1))\<close> of that binade, and
  a result that reaches \<open>2 powi (emax + 1)\<close> is an infinity. \<open>fl\<close> is this rounding for
  binary64 and \<open>fround\<close> the one for binary32, which a \<open>Float32Array\<close> applies when a number
  is stored in it.

  The octree and the main-thread fallbacks of the processor module keep real coordinates:
  the exact-arithmetic reading of that code.
\<close>

datatype number = Finite real | PosInf | NegInf | NaN

definition roundEven :: "real \<Rightarrow> int" where
  "roundEven q =
     (let f = \<lfloor>q\<rfloor>; d = q - of_int f
      in if d < 1 / 2 then f else if 1 / 2 < d then f + 1 else if even f then f else f + 1)"

fun exponentUp :: "nat \<Rightarrow> real \<Rightarrow> int" where
  "exponentUp 0 a = 0"
| "exponentUp (Suc n) a = (if a < 2 then 0 else 1 + exponentUp n (a / 2))"

fun exponentDown :: "nat \<Rightarrow> real \<Rightarrow> int" where
  "exponentDown 0 a = 0"
| "exponentDown (Suc n) a = (if 1 \<le> a then 0 else exponentDown n (2 * a) - 1)"

definition exponent :: "nat \<Rightarrow> real \<Rightarrow> int" where
  "exponent emax a = (if 1 \<le> a then exponentUp (emax + 1) a else exponentDown (emax - 1) a)"

definition roundTo :: "nat \<Rightarrow> nat \<Rightarrow> real \<Rightarrow> number" where
  "roundTo p emax r =
     (if r = 0 then Finite 0
      else let e = exponent emax \<bar>r\<bar>;
               ulp = 2 powi (e - (int p - 1));
               v = of_int (roundEven (r / ulp)) * ulp
           in if 2 powi (int emax + 1) \<le> \<bar>v\<bar> then (if 0 < r then PosInf else NegInf)
              else Finite v)"

definition fl :: "real \<Rightarrow> number" where
  "fl = roundTo 53 1023"

fun fround :: "number \<Rightarrow> number" where
  "fround (Finite r) = roundTo 24 127 r"
| "fround other = other"

text \<open>
  The operators \<open>+\<close>, \<open>-\<close>, \<open>*\<close>, \<open>/\<close>, \<open><=\<close>, \<open>>=\<close> and the functions \<open>Math.sqrt\<close> and
  \<open>Math.floor\<close> on numbers. An integer that the code uses as a number (a length, a loop
  index, a count, all below \<open>2^53\<close> and so exact) is \<open>ofNat\<close>.
\<close>

fun numNeg :: "number \<Rightarrow> number" where
  "numNeg (Finite a) = Finite (- a)"
| "numNeg PosInf = NegInf"
| "numNeg NegInf = PosInf"
| "numNeg NaN = NaN"

fun numAdd :: "number \<Rightarrow> number \<Rightarrow> number" where
  "numAdd NaN b = NaN"
| "numAdd a NaN = NaN"
| "numAdd PosInf NegInf = NaN"
| "numAdd NegInf PosInf = NaN"
| "numAdd PosInf b = PosInf"
| "numAdd a PosInf = PosInf"
| "numAdd NegInf b = NegInf"
| "numAdd a NegInf = NegInf"
| "numAdd (Finite a) (Finite b) = fl (a + b)"

definition numSub :: "number \<Rightarrow> number \<Rightarrow> number" where
  "numSub a b = numAdd a (numNeg b)"

fun numMul :: "number \<Rightarrow> number \<Rightarrow> number" where
  "numMul NaN b = NaN"
| "numMul a NaN = NaN"
| "numMul (Finite a) (Finite b) = fl (a * b)"
| "numMul (Finite a) PosInf = (if a = 0 then NaN else if 0 < a then PosInf else NegInf)"
| "numMul (Finite a) NegInf = (if a = 0 then NaN else if 0 < a then NegInf else PosInf)"
| "numMul PosInf (Finite b) = (if b = 0 then NaN else if 0 < b then PosInf else NegInf)"
| "numMul NegInf (Finite b) = (if b = 0 then NaN else if 0 < b then NegInf else PosInf)"
| "numMul PosInf PosInf = PosInf"
| "numMul PosInf NegInf = NegInf"
| "numMul NegInf PosInf = NegInf"
| "numMul NegInf NegInf = PosInf"

fun numDiv :: "number \<Rightarrow> number \<Rightarrow> number" where
  "numDiv NaN b = NaN"
| "numDiv a NaN = NaN"
| "numDiv (Finite a) (Finite b) =
     (if b = 0 then (if a = 0 then NaN else if 0 < a then PosInf else NegInf) else fl (a / b))"
| "numDiv (Finite a) PosInf = Finite 0"
| "numDiv (Finite a) NegInf = Finite 0"
| "numDiv PosInf (Finite b) = (if 0 \<le> b then PosInf else NegInf)"
| "numDiv NegInf (Finite b) = (if 0 \<le> b then NegInf else PosInf)"
| "numDiv a b = NaN"

fun numSqrt :: "number \<Rightarrow> number" where
  "numSqrt (Finite a) = (if a < 0 then NaN else fl (sqrt a))"
| "numSqrt PosInf = PosInf"
| "numSqrt other = NaN"

fun numFloor :: "number \<Rightarrow> number" where
  "numFloor (Finite a) = Finite (of_int \<lfloor>a\<rfloor>)"
| "numFloor other = other"

fun numLe :: "number \<Rightarrow> number \<Rightarrow> bool" where
  "numLe NaN b = False"
| "numLe a NaN = False"
| "numLe NegInf b = True"
| "numLe a PosInf = True"
| "numLe PosInf b = False"
| "numLe a NegInf = False"
| "numLe (Finite a) (Finite b) = (a \<le> b)"

definition numGe :: "number \<Rightarrow> number \<Rightarrow> bool" where
  "numGe a b = numLe b a"

definition ofNat :: "nat \<Rightarrow> number" where
  "ofNat n = Finite (real n)"

section \<open>Octree construction: \<open>buildOctree\<close> of pointCloudProcessor.js\<close>

text \<open>
  Points of the processor module are objects \<open>{x, y, z, r, g, b}\<close>; the colour fields may be
  undefined. A bounding box is \<open>{min: {x, y, z}, max: {x, y, z}}\<close>, and a tree node is
  \<open>{boundingBox, points, children}\<close> with \<open>children\<close> either \<open>null\<close> or the array of
  eight children. \<open>calculateBoundingBox\<close> returns \<open>null\<close> for an empty array.
\<close>

record point =
  px :: real
  py :: real
  pz :: real
  pr :: "real option"
  pg :: "real option"
  pb :: "real option"

record vec3 =
  vx :: real
  vy :: real
  vz :: real

record bbox =
  bmin :: vec3
  bmax :: vec3

datatype node = Node (boundingBox: "bbox option") (points: "point list") (children: "node list option")

datatype error = TypeError

definition createNode :: "bbox option \<Rightarrow> node" where
  "createNode bb = Node bb [] None"

fun calculateBoundingBox :: "point list \<Rightarrow> bbox option" where
  "calculateBoundingBox [] = None"
| "calculateBoundingBox (p # ps) =
     Some (foldl (\<lambda>bb q.
             \<lparr>bmin = \<lparr>vx = min (vx (bmin bb)) (px q), vy = min (vy (bmin bb)) (py q),
                      vz = min (vz (bmin bb)) (pz q)\<rparr>,
              bmax = \<lparr>vx = max (vx (bmax bb)) (px q), vy = max (vy (bmax bb)) (py q),
                      vz = max (vz (bmax bb)) (pz q)\<rparr>\<rparr>)
           \<lparr>bmin = \<lparr>vx = px p, vy = py p, vz = pz p\<rparr>,
            bmax = \<lparr>vx = px p, vy = py p, vz = pz p\<rparr>\<rparr> ps)"

definition octant :: "bbox \<Rightarrow> real \<Rightarrow> real \<Rightarrow> real \<Rightarrow> nat \<Rightarrow> bbox" where
  "octant bb midX midY midZ i =
     (let minX = (if i AND 1 \<noteq> 0 then midX else vx (bmin bb));
          maxX = (if i AND 1 \<noteq> 0 then vx (bmax bb) else midX);
          minY = (if i AND 2 \<noteq> 0 then midY else vy (bmin bb));
          maxY = (if i AND 2 \<noteq> 0 then vy (bmax bb) else midY);
          minZ = (if i AND 4 \<noteq> 0 then midZ else vz (bmin bb));
          maxZ = (if i AND 4 \<noteq> 0 then vz (bmax bb) else midZ)
      in \<lparr>bmin = \<lparr>vx = minX, vy = minY, vz = minZ\<rparr>,
          bmax = \<lparr>vx = maxX, vy = maxY, vz = maxZ\<rparr>\<rparr>)"

definition childIndex :: "real \<Rightarrow> real \<Rightarrow> real \<Rightarrow> point \<Rightarrow> nat" where
  "childIndex midX midY midZ p =
     (if px p > midX then 1 else 0) + (if py p > midY then 2 else 0) + (if pz p > midZ then 4 else 0)"

definition assignPoints :: "real \<Rightarrow> real \<Rightarrow> real \<Rightarrow> (bbox \<times> point list) list \<Rightarrow> point list
    \<Rightarrow> (bbox \<times> point list) list" where
  "assignPoints midX midY midZ cs ps =
     foldl (\<lambda>cs p. let index = childIndex midX midY midZ p
                    in cs[index := (fst (cs ! index), snd (cs ! index) @ [p])]) cs ps"

function subdivideNode :: "int \<Rightarrow> int \<Rightarrow> bbox \<Rightarrow> point list \<Rightarrow> int \<Rightarrow> node" where
  "subdivideNode maxDepth minPointsPerNode bb pts depth =
     (let midX = (vx (bmin bb) + vx (bmax bb)) / 2;
          midY = (vy (bmin bb) + vy (bmax bb)) / 2;
          midZ = (vz (bmin bb) + vz (bmax bb)) / 2;
          created = map (\<lambda>i. (octant bb midX midY midZ i, [])) [0..<8];
          assigned = assignPoints midX midY midZ created pts;
          subdivided =
            (if depth < maxDepth
             then map (\<lambda>c. if int (length (snd c)) > minPointsPerNode
                            then subdivideNode maxDepth minPointsPerNode (fst c) (snd c) (depth + 1)
                            else Node (Some (fst c)) (snd c) None) assigned
             else map (\<lambda>c. Node (Some (fst c)) (snd c) None) assigned)
      in Node (Some bb) [] (Some subdivided))"
  by pat_completeness auto
termination
  by (relation "measure (\<lambda>(maxDepth, minPointsPerNode, bb, pts, depth). nat (maxDepth - depth))") auto

definition buildOctree :: "point list \<Rightarrow> int option \<Rightarrow> int option \<Rightarrow> error + node" where
  "buildOctree pts maxDepthArg minPointsArg =
     (let maxDepth = (case maxDepthArg of None \<Rightarrow> 8 | Some d \<Rightarrow> d);
          minPointsPerNode = (case minPointsArg of None \<Rightarrow> 5 | Some m \<Rightarrow> m);
          boundingBox = calculateBoundingBox pts
      in if int (length pts) > minPointsPerNode
         then (case boundingBox of
                 None \<Rightarrow> Inl TypeError
               | Some bb \<Rightarrow> Inr (subdivideNode maxDepth minPointsPerNode bb pts 0))
         else Inr (Node boundingBox pts None))"

text \<open>
  The leaves of a tree are the nodes whose \<open>children\<close> is \<open>null\<close>; \<open>leafPoints\<close> collects
  their point lists from left to right, and \<open>internalEmpty\<close> says that every node with
  children has an empty point list of its own.
\<close>

fun leafPoints :: "node \<Rightarrow> point list" where
  "leafPoints (Node bb ps None) = ps"
| "leafPoints (Node bb ps (Some cs)) = concat (map leafPoints cs)"

fun internalEmpty :: "node \<Rightarrow> bool" where
  "internalEmpty (Node bb ps None) = True"
| "internalEmpty (Node bb ps (Some cs)) = (ps = [] \<and> list_all internalEmpty cs)"

text \<open>
  The terminal rule as the specification words it, for a node at \<open>depth\<close>: the node is a leaf
  exactly when \<open>depth = maxDepth\<close> or it holds at most \<open>minPointsPerNode\<close> points. The points
  a subdivided node held are the points of the leaves below it.
\<close>

fun leafRuleHolds :: "int \<Rightarrow> int \<Rightarrow> int \<Rightarrow> node \<Rightarrow> bool" where
  "leafRuleHolds maxDepth minPointsPerNode depth (Node bb ps None) =
     (depth = maxDepth \<or> int (length ps) \<le> minPointsPerNode)"
| "leafRuleHolds maxDepth minPointsPerNode depth (Node bb ps (Some cs)) =
     (\<not> (depth = maxDepth \<or> int (length (concat (map leafPoints cs))) \<le> minPointsPerNode)
      \<and> list_all (leafRuleHolds maxDepth minPointsPerNode (depth + 1)) cs)"

text \<open>Example inputs.\<close>

definition exA :: point where
  "exA = \<lparr>px = 0, py = 0, pz = 0, pr = None, pg = None, pb = None\<rparr>"

definition exB :: point where
  "exB = \<lparr>px = 2, py = 2, pz = 2, pr = None, pg = None, pb = None\<rparr>"

definition exBox :: bbox where
  "exBox = \<lparr>bmin = \<lparr>vx = 0, vy = 0, vz = 0\<rparr>, bmax = \<lparr>vx = 2, vy = 2, vz = 2\<rparr>\<rparr>"

definition exTree :: node where
  "exTree = Node (Some exBox) []
     (Some (map (\<lambda>i. Node (Some (octant exBox 1 1 1 i))
                        (if i = 0 then [exA] else if i = 7 then [exB] else []) None) [0..<8]))"

definition zeroBox :: bbox where
  "zeroBox = \<lparr>bmin = \<lparr>vx = 0, vy = 0, vz = 0\<rparr>, bmax = \<lparr>vx = 0, vy = 0, vz = 0\<rparr>\<rparr>"

definition emptyLeaf :: node where
  "emptyLeaf = Node (Some zeroBox) [] None"

definition deepTree :: node where
  "deepTree = Node (Some zeroBox) []
     (Some (Node (Some zeroBox) []
              (Some (Node (Some zeroBox) [exA, exA] None # replicate 7 emptyLeaf))
            # replicate 7 emptyLeaf))"

section \<open>The worker: pointCloudWorker.js\<close>

text \<open>
  The worker receives and returns flat buffers \<open>[x, y, z, x, y, z, ...]\<close>. Every stage walks
  the buffer with \<open>for (i = 0; i < pointData.length; i += 3)\<close>, which is the recursion over
  \<open>x # y # z # rest\<close> below, \<open>i\<close> being carried for the progress reports. Each function
  returns the messages it posts with \<open>self.postMessage\<close>, in order, and its result.

  When the length of the buffer is not a multiple of 3, the last round reads \<open>undefined\<close>
  for the missing coordinates. Every arithmetic operation turns \<open>undefined\<close> into \<open>NaN\<close>, so
  the missing coordinates are \<open>NaN\<close> in the model; \<open>randomDownsampling\<close> alone stores them
  as they are, and there \<open>NaN\<close> stands for \<open>undefined\<close>.
\<close>

type_synonym pointData = "number list"

definition CHUNK_SIZE :: nat where
  "CHUNK_SIZE = 100000"

definition MIN_DISTANCE :: number where
  "MIN_DISTANCE = fl (1 / 100)"

definition DEFAULT_SAMPLING_RATE :: number where
  "DEFAULT_SAMPLING_RATE = fl (1 / 2)"

text \<open>
  The messages of the worker, by their \<open>status\<close>: \<open>started\<close> (totalPoints); the stage
  announcements \<open>filtering\<close>, \<open>downsampling\<close>, \<open>transforming\<close>, \<open>optimizing\<close> (totalPoints);
  \<open>progress\<close> (progress, operation); the stage results \<open>filtered\<close>, \<open>downsampled\<close>,
  \<open>transformed\<close> (data, pointCount); \<open>optimized\<close> (data, structure); \<open>info\<close> (message);
  \<open>completed\<close> (data, processTime, pointCount); \<open>error\<close> (error).
\<close>

datatype message =
    Started number
  | Stage string number
  | Progress number string
  | StageResult string pointData number
  | Optimized pointData string
  | Info string
  | Completed pointData number number
  | ErrorMsg string

text \<open>
  An options object, with the fields the worker reads; a field that is absent is \<open>None\<close>,
  a field that is present holds a value of its type. The stage fields \<open>filter\<close>,
  \<open>downsample\<close>, \<open>transform\<close>, \<open>optimize\<close> of the options of \<open>process\<close> are options
  objects themselves, \<open>None\<close> when absent or falsy.
\<close>

datatype options = Options
  (opt_threshold: "number option")
  (opt_method: "string option")
  (opt_rate: "number option")
  (opt_voxelSize: "number option")
  (opt_matrix: "number list option")
  (opt_filter: "options option")
  (opt_downsample: "options option")
  (opt_transform: "options option")
  (opt_optimize: "options option")

definition emptyOptions :: options where
  "emptyOptions = Options None None None None None None None None None"

definition progressMsg :: "nat \<Rightarrow> nat \<Rightarrow> string \<Rightarrow> message list" where
  "progressMsg i n operation =
     (if i mod CHUNK_SIZE = 0 then [Progress (numDiv (ofNat i) (ofNat n)) operation] else [])"

text \<open>
  \<open>statisticalOutlierRemoval\<close> copies the positions into an array it never reads and returns
  its input (``For demonstration, just returning original data''); \<open>radiusOutlierRemoval\<close>
  returns its input as well. Neither posts a message.
\<close>

definition statisticalOutlierRemoval :: "pointData \<Rightarrow> number option \<Rightarrow> pointData" where
  "statisticalOutlierRemoval pointData stdDevMultiplier = pointData"

definition radiusOutlierRemoval :: "pointData \<Rightarrow> number option \<Rightarrow> int option \<Rightarrow> pointData" where
  "radiusOutlierRemoval pointData radius minNeighbors = pointData"

definition distanceFilter_step :: "number \<Rightarrow> number \<Rightarrow> number \<Rightarrow> number \<Rightarrow> pointData" where
  "distanceFilter_step x y z maxDistance =
     (let distance = numSqrt (numAdd (numAdd (numMul x x) (numMul y y)) (numMul z z))
      in if numLe distance maxDistance then [x, y, z] else [])"

fun distanceFilter_loop :: "nat \<Rightarrow> nat \<Rightarrow> pointData \<Rightarrow> number \<Rightarrow> message list \<times> pointData" where
  "distanceFilter_loop i n (x # y # z # rest) maxDistance =
     (let kept = distanceFilter_step x y z maxDistance;
          posted = progressMsg i n ''filtering'';
          (later, filtered) = distanceFilter_loop (i + 3) n rest maxDistance
      in (posted @ later, kept @ filtered))"
| "distanceFilter_loop i n [] maxDistance = ([], [])"
| "distanceFilter_loop i n [x] maxDistance =
     (progressMsg i n ''filtering'', distanceFilter_step x NaN NaN maxDistance)"
| "distanceFilter_loop i n [x, y] maxDistance =
     (progressMsg i n ''filtering'', distanceFilter_step x y NaN maxDistance)"

definition distanceFilter :: "pointData \<Rightarrow> number option \<Rightarrow> message list \<times> pointData" where
  "distanceFilter pointData maxDistanceArg =
     (let maxDistance = (case maxDistanceArg of None \<Rightarrow> Finite 10 | Some d \<Rightarrow> d)
      in distanceFilter_loop 0 (length pointData) pointData maxDistance)"

definition filterPointCloud :: "pointData \<Rightarrow> options \<Rightarrow> bool \<Rightarrow> message list \<times> pointData" where
  "filterPointCloud pointData opts returnResult =
     (let threshold = (case opt_threshold opts of None \<Rightarrow> MIN_DISTANCE | Some t \<Rightarrow> t);
          method = (case opt_method opts of None \<Rightarrow> ''statistical'' | Some m \<Rightarrow> m);
          totalPoints = numDiv (ofNat (length pointData)) (Finite 3);
          before = (if returnResult then [Stage ''filtering'' totalPoints] else []);
          (posted, filteredData) =
            (if method = ''statistical''
             then ([], statisticalOutlierRemoval pointData (Some threshold))
             else if method = ''radius''
             then ([], radiusOutlierRemoval pointData (Some threshold) None)
             else distanceFilter pointData (Some threshold));
          after = (if returnResult
                   then [StageResult ''filtered'' filteredData
                           (numDiv (ofNat (length filteredData)) (Finite 3))]
                   else [])
      in (before @ posted @ after, filteredData))"

text \<open>
  \<open>Math.random()\<close> is the function \<open>random\<close> of the environment: \<open>random k\<close> is the value
  of the \<open>k\<close>-th call, and \<open>randomDownsampling\<close> calls it once in every round.
\<close>

definition randomDownsampling_step :: "number \<Rightarrow> number \<Rightarrow> number \<Rightarrow> number \<Rightarrow> number
    \<Rightarrow> pointData" where
  "randomDownsampling_step x y z drawn rate = (if numLe drawn rate then [x, y, z] else [])"

fun randomDownsampling_loop :: "nat \<Rightarrow> nat \<Rightarrow> pointData \<Rightarrow> number \<Rightarrow> (nat \<Rightarrow> number)
    \<Rightarrow> message list \<times> pointData" where
  "randomDownsampling_loop i n (x # y # z # rest) rate random =
     (let kept = randomDownsampling_step x y z (random (i div 3)) rate;
          posted = progressMsg i n ''downsampling'';
          (later, result) = randomDownsampling_loop (i + 3) n rest rate random
      in (posted @ later, kept @ result))"
| "randomDownsampling_loop i n [] rate random = ([], [])"
| "randomDownsampling_loop i n [x] rate random =
     (progressMsg i n ''downsampling'', randomDownsampling_step x NaN NaN (random (i div 3)) rate)"
| "randomDownsampling_loop i n [x, y] rate random =
     (progressMsg i n ''downsampling'', randomDownsampling_step x y NaN (random (i div 3)) rate)"

definition randomDownsampling :: "pointData \<Rightarrow> number option \<Rightarrow> (nat \<Rightarrow> number)
    \<Rightarrow> message list \<times> pointData" where
  "randomDownsampling pointData rateArg random =
     (let rate = (case rateArg of None \<Rightarrow> fl (1 / 2) | Some r \<Rightarrow> r)
      in if numGe rate (Finite 1) then ([], pointData)
         else randomDownsampling_loop 0 (length pointData) pointData rate random)"

text \<open>
  The \<open>Map\<close> of \<open>voxelDownsampling\<close> is an association list in insertion order. Its key,
  the string \<open>vx,vy,vz\<close> of three printed numbers, is modelled as the triple of the numbers:
  two numbers print the same exactly when they are equal (\<open>NaN\<close> prints as \<open>NaN\<close>, both zeros
  as \<open>0\<close>). \<open>AList.update\<close> replaces the value of a key in place and appends a new key at
  the end, as \<open>Map.set\<close> does; the source mutates the stored sum and count in place.
  \<open>cnt\<close> is the field \<open>count\<close>.
\<close>

type_synonym voxelKey = "number \<times> number \<times> number"
type_synonym voxel = "(number \<times> number \<times> number) \<times> nat"

definition addToVoxels :: "number \<Rightarrow> (voxelKey \<times> voxel) list \<Rightarrow> number \<times> number \<times> number
    \<Rightarrow> (voxelKey \<times> voxel) list" where
  "addToVoxels voxelSize voxels p =
     (case p of (x, y, z) \<Rightarrow>
        let vx = numFloor (numDiv x voxelSize);
            vy = numFloor (numDiv y voxelSize);
            vz = numFloor (numDiv z voxelSize);
            voxelKey = (vx, vy, vz)
        in case map_of voxels voxelKey of
             None \<Rightarrow> AList.update voxelKey ((x, y, z), 1) voxels
           | Some ((sx, sy, sz), cnt) \<Rightarrow>
               AList.update voxelKey ((numAdd sx x, numAdd sy y, numAdd sz z), cnt + 1) voxels)"

fun voxelAccumulate_loop :: "nat \<Rightarrow> nat \<Rightarrow> pointData \<Rightarrow> number \<Rightarrow> (voxelKey \<times> voxel) list
    \<Rightarrow> message list \<times> (voxelKey \<times> voxel) list" where
  "voxelAccumulate_loop i n (x # y # z # rest) voxelSize voxels =
     (let voxels' = addToVoxels voxelSize voxels (x, y, z);
          posted = progressMsg i n ''voxel-downsampling'';
          (later, final) = voxelAccumulate_loop (i + 3) n rest voxelSize voxels'
      in (posted @ later, final))"
| "voxelAccumulate_loop i n [] voxelSize voxels = ([], voxels)"
| "voxelAccumulate_loop i n [x] voxelSize voxels =
     (progressMsg i n ''voxel-downsampling'', addToVoxels voxelSize voxels (x, NaN, NaN))"
| "voxelAccumulate_loop i n [x, y] voxelSize voxels =
     (progressMsg i n ''voxel-downsampling'', addToVoxels voxelSize voxels (x, y, NaN))"

fun voxelCentroid_loop :: "nat \<Rightarrow> nat \<Rightarrow> (voxelKey \<times> voxel) list \<Rightarrow> message list \<times> pointData" where
  "voxelCentroid_loop progress totalVoxels [] = ([], [])"
| "voxelCentroid_loop progress totalVoxels ((k, ((sx, sy, sz), cnt)) # voxels) =
     (let centroid = [numDiv sx (ofNat cnt), numDiv sy (ofNat cnt), numDiv sz (ofNat cnt)];
          progress' = progress + 1;
          posted = (if progress' mod 1000 = 0
                    then [Progress (numDiv (ofNat progress') (ofNat totalVoxels)) ''voxel-centroid'']
                    else []);
          (later, result) = voxelCentroid_loop progress' totalVoxels voxels
      in (posted @ later, centroid @ result))"

definition voxelDownsampling :: "pointData \<Rightarrow> number option \<Rightarrow> message list \<times> pointData" where
  "voxelDownsampling pointData voxelSizeArg =
     (let voxelSize = (case voxelSizeArg of None \<Rightarrow> fl (5 / 100) | Some v \<Rightarrow> v);
          (posted1, voxels) = voxelAccumulate_loop 0 (length pointData) pointData voxelSize [];
          (posted2, result) = voxelCentroid_loop 0 (length voxels) voxels
      in (posted1 @ posted2, result))"

text \<open>
  \<open>options.voxelSize || 0.05\<close> replaces an absent size, \<open>0\<close> and \<open>NaN\<close> by \<open>0.05\<close>.
\<close>

definition downsamplePointCloud :: "pointData \<Rightarrow> options \<Rightarrow> bool \<Rightarrow> (nat \<Rightarrow> number)
    \<Rightarrow> message list \<times> pointData" where
  "downsamplePointCloud pointData opts returnResult random =
     (let rate = (case opt_rate opts of None \<Rightarrow> DEFAULT_SAMPLING_RATE | Some r \<Rightarrow> r);
          method = (case opt_method opts of None \<Rightarrow> ''random'' | Some m \<Rightarrow> m);
          totalPoints = numDiv (ofNat (length pointData)) (Finite 3);
          before = (if returnResult then [Stage ''downsampling'' totalPoints] else []);
          (posted, downsampledData) =
            (if method = ''voxel''
             then voxelDownsampling pointData
                    (Some (case opt_voxelSize opts of None \<Rightarrow> fl (5 / 100)
                           | Some v \<Rightarrow> if v = Finite 0 \<or> v = NaN then fl (5 / 100) else v))
             else randomDownsampling pointData (Some rate) random);
          after = (if returnResult
                   then [StageResult ''downsampled'' downsampledData
                           (numDiv (ofNat (length downsampledData)) (Finite 3))]
                   else [])
      in (before @ posted @ after, downsampledData))"

text \<open>
  \<open>applyTransformation\<close> writes into a \<open>Float32Array\<close> of the length of the input: every
  number stored is rounded by \<open>fround\<close>, and a store beyond the end is ignored. An entry of
  the matrix that does not exist reads \<open>undefined\<close>, \<open>NaN\<close> in the arithmetic.
\<close>

definition matrixEntry :: "number list \<Rightarrow> nat \<Rightarrow> number" where
  "matrixEntry matrix k = (if k < length matrix then matrix ! k else NaN)"

definition applyTransformation_step :: "number list \<Rightarrow> number \<Rightarrow> number \<Rightarrow> number \<Rightarrow> pointData" where
  "applyTransformation_step matrix x y z =
     [fround (numAdd (numAdd (numAdd (numMul (matrixEntry matrix 0) x) (numMul (matrixEntry matrix 1) y))
                        (numMul (matrixEntry matrix 2) z)) (matrixEntry matrix 3)),
      fround (numAdd (numAdd (numAdd (numMul (matrixEntry matrix 4) x) (numMul (matrixEntry matrix 5) y))
                        (numMul (matrixEntry matrix 6) z)) (matrixEntry matrix 7)),
      fround (numAdd (numAdd (numAdd (numMul (matrixEntry matrix 8) x) (numMul (matrixEntry matrix 9) y))
                        (numMul (matrixEntry matrix 10) z)) (matrixEntry matrix 11))]"

fun applyTransformation_loop :: "nat \<Rightarrow> nat \<Rightarrow> pointData \<Rightarrow> number list \<Rightarrow> message list \<times> pointData" where
  "applyTransformation_loop i n (x # y # z # rest) matrix =
     (let stored = applyTransformation_step matrix x y z;
          posted = progressMsg i n ''transforming'';
          (later, result) = applyTransformation_loop (i + 3) n rest matrix
      in (posted @ later, stored @ result))"
| "applyTransformation_loop i n [] matrix = ([], [])"
| "applyTransformation_loop i n [x] matrix =
     (progressMsg i n ''transforming'', take 1 (applyTransformation_step matrix x NaN NaN))"
| "applyTransformation_loop i n [x, y] matrix =
     (progressMsg i n ''transforming'', take 2 (applyTransformation_step matrix x y NaN))"

definition applyTransformation :: "pointData \<Rightarrow> number list \<Rightarrow> message list \<times> pointData" where
  "applyTransformation pointData matrix =
     applyTransformation_loop 0 (length pointData) pointData matrix"

definition transformPointCloud :: "pointData \<Rightarrow> options \<Rightarrow> bool \<Rightarrow> message list \<times> pointData" where
  "transformPointCloud pointData opts returnResult =
     (let matrix = (case opt_matrix opts of
                      None \<Rightarrow> map Finite [1, 0, 0, 0,  0, 1, 0, 0,  0, 0, 1, 0,  0, 0, 0, 1]
                    | Some m \<Rightarrow> m);
          totalPoints = numDiv (ofNat (length pointData)) (Finite 3);
          before = (if returnResult then [Stage ''transforming'' totalPoints] else []);
          (posted, transformed) = applyTransformation pointData matrix;
          after = (if returnResult
                   then [StageResult ''transformed'' transformed
                           (numDiv (ofNat (length transformed)) (Finite 3))]
                   else [])
      in (before @ posted @ after, transformed))"

text \<open>
  The three index builders of the worker post an \<open>info\<close> message and return the buffer
  unchanged. The worker's \<open>buildOctree\<close> is named \<open>workerBuildOctree\<close> here.
\<close>

definition workerBuildOctree :: "pointData \<Rightarrow> message list \<times> pointData" where
  "workerBuildOctree pointData = ([Info ''Building octree structure''], pointData)"

definition buildKdTree :: "pointData \<Rightarrow> message list \<times> pointData" where
  "buildKdTree pointData = ([Info ''Building KD-tree structure''], pointData)"

definition reorderPoints :: "pointData \<Rightarrow> message list \<times> pointData" where
  "reorderPoints pointData = ([Info ''Reordering points for improved memory locality''], pointData)"

definition optimizeDataStructure :: "pointData \<Rightarrow> options \<Rightarrow> bool \<Rightarrow> message list \<times> pointData" where
  "optimizeDataStructure pointData opts returnResult =
     (let method = (case opt_method opts of None \<Rightarrow> ''octree'' | Some m \<Rightarrow> m);
          totalPoints = numDiv (ofNat (length pointData)) (Finite 3);
          before = (if returnResult then [Stage ''optimizing'' totalPoints] else []);
          (posted, optimizedData) =
            (if method = ''octree'' then workerBuildOctree pointData
             else if method = ''kdtree'' then buildKdTree pointData
             else reorderPoints pointData);
          after = (if returnResult then [Optimized optimizedData method] else [])
      in (before @ posted @ after, optimizedData))"

text \<open>
  What the worker reads from its environment: \<open>Math.random\<close> and the two readings of
  \<open>performance.now()\<close> in \<open>processPointCloud\<close>.
\<close>

record environment =
  env_random :: "nat \<Rightarrow> number"
  env_startTime :: number
  env_endTime :: number

definition processPointCloud :: "pointData \<Rightarrow> options \<Rightarrow> environment \<Rightarrow> message list \<times> pointData" where
  "processPointCloud pointData opts env =
     (let totalPoints = numDiv (ofNat (length pointData)) (Finite 3);
          (posted1, data1) = (case opt_filter opts of
                                None \<Rightarrow> ([], pointData)
                              | Some f \<Rightarrow> filterPointCloud pointData f False);
          (posted2, data2) = (case opt_downsample opts of
                                None \<Rightarrow> ([], data1)
                              | Some d \<Rightarrow> downsamplePointCloud data1 d False (env_random env));
          (posted3, data3) = (case opt_transform opts of
                                None \<Rightarrow> ([], data2)
                              | Some t \<Rightarrow> transformPointCloud data2 t False);
          (posted4, data4) = (case opt_optimize opts of
                                None \<Rightarrow> ([], data3)
                              | Some opt \<Rightarrow> optimizeDataStructure data3 opt False)
      in ([Started totalPoints] @ posted1 @ posted2 @ posted3 @ posted4
            @ [Completed data4 (numSub (env_endTime env) (env_startTime env))
                 (numDiv (ofNat (length data4)) (Finite 3))],
          data4))"

text \<open>
  \<open>self.onmessage\<close> reads \<open>cmd\<close>, \<open>data\<close> and \<open>options\<close> from the message; each may be
  missing, and \<open>data\<close> and \<open>options\<close> may be \<open>null\<close>. It dispatches on \<open>cmd\<close> inside a
  \<open>try\<close> block whose \<open>catch\<close> posts the message of the exception with status \<open>error\<close>:
  \<^item> an unknown command throws \<open>Unknown command:\<close> followed by the command, which prints as
    \<open>undefined\<close> when it is missing;
  \<^item> a stage function first destructures its options, which throws a \<open>TypeError\<close> on
    \<open>null\<close> (a missing \<open>options\<close> is the empty object), and then reads
    \<open>pointData.length\<close>, which throws a \<open>TypeError\<close> when \<open>data\<close> is missing or \<open>null\<close>;
    both happen before the stage posts anything;
  \<^item> \<open>processPointCloud\<close> reads \<open>pointData.length\<close> first, posts \<open>started\<close> and then reads
    \<open>options.filter\<close>, which throws a \<open>TypeError\<close> on \<open>null\<close>.
  The text of a \<open>TypeError\<close> is chosen by the engine and is named \<open>typeErrorText\<close>. The
  result is the list of messages posted.
\<close>

datatype 'a field = Undefined | Null | Val 'a

record request =
  req_cmd :: "string option"
  req_data :: "pointData field"
  req_options :: "options field"

definition typeErrorText :: string where
  "typeErrorText = ''TypeError''"

definition runStage :: "request \<Rightarrow> (pointData \<Rightarrow> options \<Rightarrow> message list) \<Rightarrow> message list" where
  "runStage e stage =
     (case req_options e of
        Null \<Rightarrow> [ErrorMsg typeErrorText]
      | Undefined \<Rightarrow>
          (case req_data e of
             Val pointData \<Rightarrow> stage pointData emptyOptions
           | other \<Rightarrow> [ErrorMsg typeErrorText])
      | Val opts \<Rightarrow>
          (case req_data e of
             Val pointData \<Rightarrow> stage pointData opts
           | other \<Rightarrow> [ErrorMsg typeErrorText]))"

definition runProcess :: "request \<Rightarrow> environment \<Rightarrow> message list" where
  "runProcess e env =
     (case req_data e of
        Val pointData \<Rightarrow>
          (case req_options e of
             Null \<Rightarrow> [Started (numDiv (ofNat (length pointData)) (Finite 3)), ErrorMsg typeErrorText]
           | Undefined \<Rightarrow> fst (processPointCloud pointData emptyOptions env)
           | Val opts \<Rightarrow> fst (processPointCloud pointData opts env))
      | other \<Rightarrow> [ErrorMsg typeErrorText])"

definition onmessage :: "request \<Rightarrow> environment \<Rightarrow> message list" where
  "onmessage e env =
     (case req_cmd e of
        None \<Rightarrow> [ErrorMsg ''Unknown command: undefined'']
      | Some c \<Rightarrow>
          if c = ''process'' then runProcess e env
          else if c = ''filter''
          then runStage e (\<lambda>pointData opts. fst (filterPointCloud pointData opts True))
          else if c = ''downsample''
          then runStage e (\<lambda>pointData opts.
                 fst (downsamplePointCloud pointData opts True (env_random env)))
          else if c = ''transform''
          then runStage e (\<lambda>pointData opts. fst (transformPointCloud pointData opts True))
          else if c = ''optimize''
          then runStage e (\<lambda>pointData opts. fst (optimizeDataStructure pointData opts True))
          else [ErrorMsg (''Unknown command: '' @ c)])"

section \<open>The processor module: pointCloudProcessor.js\<close>

text \<open>
  \<open>applyTransformLocal\<close> reads the matrix column by column and divides by \<open>w\<close>. Division by
  \<open>w = 0\<close> is \<open>0\<close> in HOL and \<open>Infinity\<close> or \<open>NaN\<close> in the source; a matrix shorter than 16
  entries reads \<open>undefined\<close> in the source and an unspecified value here.
\<close>

definition applyTransformLocal :: "point list \<Rightarrow> real list option \<Rightarrow> point list" where
  "applyTransformLocal pts matrixArg =
     (case matrixArg of
        None \<Rightarrow> pts
      | Some matrix \<Rightarrow>
          map (\<lambda>point.
                 let x = matrix ! 0 * px point + matrix ! 4 * py point + matrix ! 8 * pz point + matrix ! 12;
                     y = matrix ! 1 * px point + matrix ! 5 * py point + matrix ! 9 * pz point + matrix ! 13;
                     z = matrix ! 2 * px point + matrix ! 6 * py point + matrix ! 10 * pz point + matrix ! 14;
                     w = matrix ! 3 * px point + matrix ! 7 * py point + matrix ! 11 * pz point + matrix ! 15
                 in \<lparr>px = x / w, py = y / w, pz = z / w,
                     pr = pr point, pg = pg point, pb = pb point\<rparr>) pts)"

text \<open>
  The fallbacks that run on the main thread when no worker exists. The inner loop of
  \<open>applyNoiseFilterLocal\<close> leaves with \<open>break\<close> as soon as \<open>minNeighbors\<close> neighbours are
  counted. \<open>applyDownsamplingLocal\<close> keeps every \<open>factor\<close>-th point.
\<close>

record noiseParams =
  np_radius :: "real option"
  np_minNeighbors :: "int option"

fun countNeighbors :: "point \<Rightarrow> nat \<Rightarrow> nat \<Rightarrow> point list \<Rightarrow> real \<Rightarrow> int \<Rightarrow> nat \<Rightarrow> nat" where
  "countNeighbors point i j [] radius minNeighbors neighborCount = neighborCount"
| "countNeighbors point i j (other # rest) radius minNeighbors neighborCount =
     (if i = j then countNeighbors point i (j + 1) rest radius minNeighbors neighborCount
      else let distance = sqrt ((px point - px other)\<^sup>2 + (py point - py other)\<^sup>2
                                 + (pz point - pz other)\<^sup>2)
           in if distance < radius
              then (if int (neighborCount + 1) \<ge> minNeighbors then neighborCount + 1
                    else countNeighbors point i (j + 1) rest radius minNeighbors (neighborCount + 1))
              else countNeighbors point i (j + 1) rest radius minNeighbors neighborCount)"

definition applyNoiseFilterLocal :: "point list \<Rightarrow> noiseParams option \<Rightarrow> point list" where
  "applyNoiseFilterLocal pts paramsArg =
     (let radius = (case paramsArg of None \<Rightarrow> 5 / 100
                    | Some params \<Rightarrow> (case np_radius params of None \<Rightarrow> 5 / 100 | Some r \<Rightarrow> r));
          minNeighbors = (case paramsArg of None \<Rightarrow> 3
                          | Some params \<Rightarrow> (case np_minNeighbors params of None \<Rightarrow> 3 | Some m \<Rightarrow> m))
      in map snd (filter (\<lambda>(i, point).
                     int (countNeighbors point i 0 pts radius minNeighbors 0) \<ge> minNeighbors)
                   (zip [0..<length pts] pts)))"

fun everyNth :: "nat \<Rightarrow> point list \<Rightarrow> point list" where
  "everyNth factor [] = []"
| "everyNth factor (p # ps) = p # everyNth factor (drop (factor - 1) ps)"

definition applyDownsamplingLocal :: "point list \<Rightarrow> nat option \<Rightarrow> point list" where
  "applyDownsamplingLocal pts factorArg =
     (let factor = (case factorArg of None \<Rightarrow> 2 | Some f \<Rightarrow> f)
      in if factor \<le> 1 then pts else everyNth factor pts)"

record processOptions =
  po_noiseFilter :: bool
  po_noiseFilterParams :: "noiseParams option"
  po_downsample :: bool
  po_downsampleFactor :: "nat option"
  po_transform :: bool
  po_transformMatrix :: "real list option"

definition processDataLocally :: "point list \<Rightarrow> processOptions \<Rightarrow> point list" where
  "processDataLocally pts opts =
     (let processed1 = (if po_noiseFilter opts
                        then applyNoiseFilterLocal pts (po_noiseFilterParams opts) else pts);
          processed2 = (if po_downsample opts
                        then applyDownsamplingLocal processed1 (po_downsampleFactor opts)
                        else processed1);
          processed3 = (if po_transform opts
                        then applyTransformLocal processed2 (po_transformMatrix opts)
                        else processed2)
      in processed3)"

text \<open>
  The module state of \<open>PointCloudProcessor\<close> and the handler \<open>worker.onmessage\<close>. What the
  worker sends is a payload: \<open>{points}\<close>, analysis results (\<open>'r\<close>) or a render buffer
  (\<open>'b\<close>); \<open>payloadPoints\<close> reads its field \<open>points\<close>, which is undefined on the last two.
  A promise is its index in \<open>promises\<close>; the closures stored in \<open>processingCallbacks\<close> are
  \<open>PointsCallback\<close> (the same body in \<open>processData\<close>, \<open>applyFilter\<close> and
  \<open>applyTransform\<close>), \<open>AnalysisCallback\<close> and \<open>BufferCallback\<close>, each holding the promise
  it resolves or rejects. An \<open>Error\<close> object is its message. \<open>hasWorker\<close> says that the
  variable \<open>worker\<close> is set; \<open>postedMessages\<close> are the requests passed to
  \<open>worker.postMessage\<close> and \<open>published\<close> the events given to the event bus.
\<close>

datatype ('r, 'b) payload = PointsData "point list" | Results 'r | Buffer 'b | EmptyObject

fun payloadPoints :: "('r, 'b) payload \<Rightarrow> point list option" where
  "payloadPoints (PointsData pts) = Some pts"
| "payloadPoints other = None"

datatype ('r, 'b) promiseState = Pending | Resolved "('r, 'b) payload" | Rejected string

datatype callback = PointsCallback nat | AnalysisCallback nat | BufferCallback nat

datatype ('r, 'b) workerMessage =
    FilterComplete "point list" string
  | AnalysisComplete 'r string
  | BufferGenerated 'b string
  | WorkerError string string
  | WorkerProgress real string
  | OtherMessage

datatype ('r, 'b) event =
    PointCloudFiltered "point list option"
  | PointCloudAnalysisComplete "('r, 'b) payload"
  | PointCloudError string
  | PointCloudProcessingProgress real string

datatype filterParams = FilterParams (fp_noise: noiseParams) (fp_factor: "nat option")

datatype posted =
    PostProcessData string "point list" processOptions
  | PostApplyFilter string string "point list" filterParams
  | PostApplyTransform string "point list" "real list option"

record ('r, 'b) processor =
  rawPointData :: "point list option"
  processedPointData :: "point list option"
  hasWorker :: bool
  processingCallbacks :: "string \<Rightarrow> callback option"
  analysisResults :: "('r, 'b) payload"
  promises :: "('r, 'b) promiseState list"
  postedMessages :: "posted list"
  published :: "('r, 'b) event list"

definition settle :: "nat \<Rightarrow> ('r, 'b) promiseState \<Rightarrow> ('r, 'b) processor \<Rightarrow> ('r, 'b) processor" where
  "settle p outcome s =
     (if p < length (promises s) \<and> promises s ! p = Pending
      then s\<lparr>promises := (promises s)[p := outcome]\<rparr> else s)"

fun runCallback :: "callback \<Rightarrow> ('r, 'b) payload option \<Rightarrow> string option
    \<Rightarrow> ('r, 'b) processor \<Rightarrow> ('r, 'b) processor" where
  "runCallback (PointsCallback p) result (Some err) s = settle p (Rejected err) s"
| "runCallback (PointsCallback p) (Some result) None s =
     settle p (Resolved result) (s\<lparr>processedPointData := payloadPoints result\<rparr>)"
| "runCallback (AnalysisCallback p) result (Some err) s = settle p (Rejected err) s"
| "runCallback (AnalysisCallback p) (Some result) None s =
     settle p (Resolved result) (s\<lparr>analysisResults := result\<rparr>)"
| "runCallback (BufferCallback p) result (Some err) s = settle p (Rejected err) s"
| "runCallback (BufferCallback p) (Some result) None s = settle p (Resolved result) s"
| "runCallback cb None None s = s"

definition invokeCallback :: "string \<Rightarrow> ('r, 'b) payload option \<Rightarrow> string option
    \<Rightarrow> ('r, 'b) processor \<Rightarrow> ('r, 'b) processor" where
  "invokeCallback requestId result err s =
     (case processingCallbacks s requestId of
        None \<Rightarrow> s
      | Some cb \<Rightarrow>
          (let s' = runCallback cb result err s
           in s'\<lparr>processingCallbacks := (processingCallbacks s')(requestId := None)\<rparr>))"

definition publish :: "('r, 'b) event \<Rightarrow> ('r, 'b) processor \<Rightarrow> ('r, 'b) processor" where
  "publish ev s = s\<lparr>published := published s @ [ev]\<rparr>"

fun workerOnmessage :: "('r, 'b) workerMessage \<Rightarrow> ('r, 'b) processor \<Rightarrow> ('r, 'b) processor" where
  "workerOnmessage (FilterComplete pts requestId) s =
     (let s1 = s\<lparr>processedPointData := Some pts\<rparr>;
          s2 = invokeCallback requestId (Some (PointsData pts)) None s1
      in publish (PointCloudFiltered (processedPointData s2)) s2)"
| "workerOnmessage (AnalysisComplete results requestId) s =
     (let s1 = s\<lparr>analysisResults := Results results\<rparr>;
          s2 = invokeCallback requestId (Some (Results results)) None s1
      in publish (PointCloudAnalysisComplete (analysisResults s2)) s2)"
| "workerOnmessage (BufferGenerated buffer requestId) s =
     invokeCallback requestId (Some (Buffer buffer)) None s"
| "workerOnmessage (WorkerError message requestId) s =
     publish (PointCloudError message) (invokeCallback requestId None (Some message) s)"
| "workerOnmessage (WorkerProgress progress stage) s =
     publish (PointCloudProcessingProgress progress stage) s"
| "workerOnmessage OtherMessage s = s"

definition newPromise :: "('r, 'b) processor \<Rightarrow> nat \<times> ('r, 'b) processor" where
  "newPromise s = (length (promises s), s\<lparr>promises := promises s @ [Pending]\<rparr>)"

text \<open>
  The requests of the public interface. \<open>requestId\<close> is the identifier that
  \<open>generateRequestId\<close> returns. The texts of the two rejections are Japanese in the
  source and are named here.
\<close>

definition noData :: string where
  "noData = ''no data to process''"

definition processData :: "string \<Rightarrow> processOptions \<Rightarrow> ('r, 'b) processor \<Rightarrow> nat \<times> ('r, 'b) processor" where
  "processData requestId opts s0 =
     (let (p, s) = newPromise s0
      in case rawPointData s of
           None \<Rightarrow> (p, settle p (Rejected noData) s)
         | Some raw \<Rightarrow>
             if hasWorker s
             then (p, s\<lparr>processingCallbacks := (processingCallbacks s)(requestId \<mapsto> PointsCallback p),
                        postedMessages := postedMessages s @ [PostProcessData requestId raw opts]\<rparr>)
             else (let result = processDataLocally raw opts
                   in (p, settle p (Resolved (PointsData result))
                            (s\<lparr>processedPointData := Some result\<rparr>))))"

definition unknownFilterType :: "string \<Rightarrow> string" where
  "unknownFilterType filterType = ''unknown filter type: '' @ filterType"

definition applyFilter :: "string \<Rightarrow> string \<Rightarrow> filterParams \<Rightarrow> ('r, 'b) processor
    \<Rightarrow> nat \<times> ('r, 'b) processor" where
  "applyFilter requestId filterType params s0 =
     (let (p, s) = newPromise s0
      in case processedPointData s of
           None \<Rightarrow> (p, settle p (Rejected noData) s)
         | Some processed \<Rightarrow>
             if hasWorker s
             then (p, s\<lparr>processingCallbacks := (processingCallbacks s)(requestId \<mapsto> PointsCallback p),
                        postedMessages := postedMessages s
                          @ [PostApplyFilter requestId filterType processed params]\<rparr>)
             else if filterType = ''noise''
             then (let result = applyNoiseFilterLocal processed (Some (fp_noise params))
                   in (p, settle p (Resolved (PointsData result))
                            (s\<lparr>processedPointData := Some result\<rparr>)))
             else if filterType = ''downsample''
             then (let result = applyDownsamplingLocal processed (fp_factor params)
                   in (p, settle p (Resolved (PointsData result))
                            (s\<lparr>processedPointData := Some result\<rparr>)))
             else (p, settle p (Rejected (unknownFilterType filterType)) s))"

definition applyTransform :: "string \<Rightarrow> real list option \<Rightarrow> ('r, 'b) processor
    \<Rightarrow> nat \<times> ('r, 'b) processor" where
  "applyTransform requestId transformMatrix s0 =
     (let (p, s) = newPromise s0
      in case processedPointData s of
           None \<Rightarrow> (p, settle p (Rejected noData) s)
         | Some processed \<Rightarrow>
             if hasWorker s
             then (p, s\<lparr>processingCallbacks := (processingCallbacks s)(requestId \<mapsto> PointsCallback p),
                        postedMessages := postedMessages s
                          @ [PostApplyTransform requestId processed transformMatrix]\<rparr>)
             else (let result = applyTransformLocal processed transformMatrix
                   in (p, settle p (Resolved (PointsData result))
                            (s\<lparr>processedPointData := Some result\<rparr>))))"

text \<open>
  The two modules as they are wired together: \<open>initWorker\<close> loads
  \<open>pointCloudWorker.js\<close>, so a message posted by the processor module is handled by
  \<open>self.onmessage\<close> of the worker, and what the worker posts is handled by
  \<open>worker.onmessage\<close> of the processor module.

  The processor posts \<open>{type, requestId, points, options}\<close>, \<open>{type, requestId, filterType,
  points, params}\<close> or \<open>{type, requestId, points, transformMatrix}\<close>. The worker reads the
  fields \<open>cmd\<close>, \<open>data\<close> and \<open>options\<close>: \<open>cmd\<close> and \<open>data\<close> are missing from all three,
  \<open>options\<close> from the last two. Of the options of \<open>processData\<close> the worker would read
  \<open>downsample\<close> and \<open>transform\<close>, which are booleans there and destructure like the empty
  object.

  Every message of the worker carries \<open>status\<close> and no field \<open>type\<close>, \<open>data.points\<close> or
  \<open>requestId\<close>; the \<open>switch (type)\<close> of the handler matches none of its cases.
\<close>

fun workerReceives :: "posted \<Rightarrow> request" where
  "workerReceives (PostProcessData requestId pts opts) =
     \<lparr>req_cmd = None, req_data = Undefined,
      req_options = Val (Options None None None None None None
                          (if po_downsample opts then Some emptyOptions else None)
                          (if po_transform opts then Some emptyOptions else None) None)\<rparr>"
| "workerReceives (PostApplyFilter requestId filterType pts params) =
     \<lparr>req_cmd = None, req_data = Undefined, req_options = Undefined\<rparr>"
| "workerReceives (PostApplyTransform requestId pts transformMatrix) =
     \<lparr>req_cmd = None, req_data = Undefined, req_options = Undefined\<rparr>"

fun processorReceives :: "message \<Rightarrow> ('r, 'b) workerMessage" where
  "processorReceives m = OtherMessage"

definition receiveAll :: "('r, 'b) workerMessage list \<Rightarrow> ('r, 'b) processor \<Rightarrow> ('r, 'b) processor" where
  "receiveAll msgs s = foldl (\<lambda>s m. workerOnmessage m s) s msgs"

text \<open>
  A request seen from end to end: the worker handles the message the request posted last,
  and the processor module handles the answers of the worker in order.
\<close>

definition workerAnswers :: "('r, 'b) processor \<Rightarrow> environment \<Rightarrow> message list" where
  "workerAnswers s env =
     (case postedMessages s of [] \<Rightarrow> [] | msgs \<Rightarrow> onmessage (workerReceives (last msgs)) env)"

definition afterAnswers :: "('r, 'b) processor \<Rightarrow> environment \<Rightarrow> ('r, 'b) processor" where
  "afterAnswers s env = receiveAll (map processorReceives (workerAnswers s env)) s"

section \<open>The wording of the specification\<close>

text \<open>
  The definitions of this section follow the specification and the statements about the
  code, not the code itself; the theorems compare the code with them. A point set of the
  worker is a list of coordinate triples, \<open>flatten\<close> is its flat buffer and \<open>chunk3\<close> reads a
  flat buffer back. \<open>exact\<close> takes a triple of reals as numbers.
\<close>

definition flatten :: "(number \<times> number \<times> number) list \<Rightarrow> pointData" where
  "flatten ps = concat (map (\<lambda>(x, y, z). [x, y, z]) ps)"

fun chunk3 :: "pointData \<Rightarrow> (number \<times> number \<times> number) list" where
  "chunk3 (x # y # z # rest) = (x, y, z) # chunk3 rest"
| "chunk3 rest = []"

definition exact :: "real \<times> real \<times> real \<Rightarrow> number \<times> number \<times> number" where
  "exact p = (case p of (x, y, z) \<Rightarrow> (Finite x, Finite y, Finite z))"

definition distance3D :: "real \<times> real \<times> real \<Rightarrow> real \<times> real \<times> real \<Rightarrow> real" where
  "distance3D a b =
     (case a of (ax, ay, az) \<Rightarrow> case b of (bx, by, bz) \<Rightarrow>
        sqrt ((ax - bx)\<^sup>2 + (ay - by)\<^sup>2 + (az - bz)\<^sup>2))"

definition origin :: "real \<times> real \<times> real" where
  "origin = (0, 0, 0)"

text \<open>
  The distance of a point to the origin as the code computes it,
  \<open>Math.sqrt(x*x + y*y + z*z)\<close> with every operation rounded.
\<close>

definition computedDistance :: "number \<times> number \<times> number \<Rightarrow> number" where
  "computedDistance p =
     (case p of (x, y, z) \<Rightarrow> numSqrt (numAdd (numAdd (numMul x x) (numMul y y)) (numMul z z)))"

text \<open>
  The statistical filter of the specification: the mean distance of each point to the other
  points, the mean and the standard deviation of these values over all points, and the
  points whose value is at most \<open>mean + stdDevMultiplier * stddev\<close>.
\<close>

definition meanNeighborDistance :: "(real \<times> real \<times> real) list \<Rightarrow> nat \<Rightarrow> real" where
  "meanNeighborDistance ps i =
     sum_list (map (\<lambda>j. if j = i then 0 else distance3D (ps ! i) (ps ! j)) [0..<length ps])
       / real (length ps - 1)"

definition statisticalSpec :: "(real \<times> real \<times> real) list \<Rightarrow> real \<Rightarrow> (real \<times> real \<times> real) list" where
  "statisticalSpec ps stdDevMultiplier =
     (let n = length ps;
          d = map (meanNeighborDistance ps) [0..<n];
          global_mean = sum_list d / real n;
          global_stddev = sqrt (sum_list (map (\<lambda>v. (v - global_mean)\<^sup>2) d) / real n)
      in map (\<lambda>i. ps ! i)
           (filter (\<lambda>i. d ! i \<le> global_mean + stdDevMultiplier * global_stddev) [0..<n]))"

text \<open>
  The homogeneous transform of the specification: the 4x4 matrix applied to \<open>(x, y, z, 1)\<close>,
  then \<open>x\<close>, \<open>y\<close>, \<open>z\<close> divided by \<open>w\<close>. The specification does not fix the layout of the 16
  entries; both are given, entry (row, column) at index \<open>4 * row + column\<close> and at index
  \<open>4 * column + row\<close>.
\<close>

definition applyMatrixRows :: "real list \<Rightarrow> real \<times> real \<times> real \<Rightarrow> real \<times> real \<times> real" where
  "applyMatrixRows m p =
     (case p of (x, y, z) \<Rightarrow>
        let w = m ! 12 * x + m ! 13 * y + m ! 14 * z + m ! 15
        in ((m ! 0 * x + m ! 1 * y + m ! 2 * z + m ! 3) / w,
            (m ! 4 * x + m ! 5 * y + m ! 6 * z + m ! 7) / w,
            (m ! 8 * x + m ! 9 * y + m ! 10 * z + m ! 11) / w))"

definition applyMatrixColumns :: "real list \<Rightarrow> real \<times> real \<times> real \<Rightarrow> real \<times> real \<times> real" where
  "applyMatrixColumns m p =
     (case p of (x, y, z) \<Rightarrow>
        let w = m ! 3 * x + m ! 7 * y + m ! 11 * z + m ! 15
        in ((m ! 0 * x + m ! 4 * y + m ! 8 * z + m ! 12) / w,
            (m ! 1 * x + m ! 5 * y + m ! 9 * z + m ! 13) / w,
            (m ! 2 * x + m ! 6 * y + m ! 10 * z + m ! 14) / w))"

text \<open>
  Voxel downsampling: the key of a point as the code computes it, the keys of a point set
  in the order of their first occurrence, and the centroid of a list of points as the code
  computes it, the sum taken from the first point on in the order of the list, every
  addition rounded, and divided by the number of points. \<open>realCentroid\<close> is the
  arithmetic mean of the specification.
\<close>

definition voxelKeyOf :: "number \<Rightarrow> number \<times> number \<times> number \<Rightarrow> voxelKey" where
  "voxelKeyOf voxelSize p =
     (case p of (x, y, z) \<Rightarrow>
        (numFloor (numDiv x voxelSize), numFloor (numDiv y voxelSize),
         numFloor (numDiv z voxelSize)))"

fun runningSum :: "number list \<Rightarrow> number" where
  "runningSum [] = Finite 0"
| "runningSum (x # xs) = foldl numAdd x xs"

definition centroid :: "(number \<times> number \<times> number) list \<Rightarrow> number \<times> number \<times> number" where
  "centroid qs =
     (numDiv (runningSum (map fst qs)) (ofNat (length qs)),
      numDiv (runningSum (map (fst \<circ> snd) qs)) (ofNat (length qs)),
      numDiv (runningSum (map (snd \<circ> snd) qs)) (ofNat (length qs)))"

definition realCentroid :: "(real \<times> real \<times> real) list \<Rightarrow> real \<times> real \<times> real" where
  "realCentroid qs =
     (sum_list (map fst qs) / real (length qs),
      sum_list (map (fst \<circ> snd) qs) / real (length qs),
      sum_list (map (snd \<circ> snd) qs) / real (length qs))"

definition firstOccurrences :: "'a list \<Rightarrow> 'a list" where
  "firstOccurrences xs = rev (remdups (rev xs))"

definition unitCube :: "(real \<times> real \<times> real) list" where
  "unitCube = [(0, 0, 0), (1, 0, 0), (0, 1, 0), (1, 1, 0), (0, 0, 1), (1, 0, 1), (0, 1, 1), (1, 1, 1)]"

section \<open>Auxiliary definitions for the statements\<close>

text \<open>
  An options object that only names a method, and an environment.
\<close>

definition withMethod :: "string \<Rightarrow> options" where
  "withMethod m = Options None (Some m) None None None None None None None"

definition quietEnv :: environment where
  "quietEnv = \<lparr>env_random = (\<lambda>k. Finite 0), env_startTime = Finite 0, env_endTime = Finite 0\<rparr>"

text \<open>
  What the voxel map holds for a key after the points \<open>ps\<close>: the running sums of the
  coordinates of the points of \<open>ps\<close> with that key, and their number.
\<close>

definition aggregate :: "number \<Rightarrow> (number \<times> number \<times> number) list \<Rightarrow> voxelKey \<Rightarrow> voxel" where
  "aggregate voxelSize ps k =
     (let qs = filter (\<lambda>p. voxelKeyOf voxelSize p = k) ps
      in ((runningSum (map fst qs), runningSum (map (fst \<circ> snd) qs),
           runningSum (map (snd \<circ> snd) qs)),
          length qs))"

text \<open>
  Two points at the origin and one at distance 3, and the matrix that only scales \<open>w\<close>
  (the same matrix in both layouts).
\<close>

definition outlierSet :: "(real \<times> real \<times> real) list" where
  "outlierSet = [(0, 0, 0), (0, 0, 0), (3, 0, 0)]"

definition scaleW :: "real list" where
  "scaleW = [1, 0, 0, 0,  0, 1, 0, 0,  0, 0, 1, 0,  0, 0, 0, 2]"

text \<open>
  A point whose square overflows, and two orders of the same four points whose first
  coordinates are \<open>2^53\<close>, \<open>1\<close>, \<open>1\<close> and \<open>0\<close>, for a voxel of edge \<open>2^60\<close>.
\<close>

definition farPoint :: "real \<times> real \<times> real" where
  "farPoint = (2 ^ 600, 0, 0)"

definition bigFirst :: "(real \<times> real \<times> real) list" where
  "bigFirst = [(9007199254740992, 0, 0), (1, 0, 0), (1, 0, 0), (0, 0, 0)]"

definition bigLast :: "(real \<times> real \<times> real) list" where
  "bigLast = [(1, 0, 0), (1, 0, 0), (9007199254740992, 0, 0), (0, 0, 0)]"

text \<open>
  An example state of the processor module with a worker and data.
\<close>

definition exOptions :: processOptions where
  "exOptions = \<lparr>po_noiseFilter = False, po_noiseFilterParams = None, po_downsample = False,
                 po_downsampleFactor = None, po_transform = False, po_transformMatrix = None\<rparr>"

definition exParams :: filterParams where
  "exParams = FilterParams \<lparr>np_radius = None, np_minNeighbors = None\<rparr> None"

definition exState :: "(unit, unit) processor" where
  "exState = \<lparr>rawPointData = Some [exA, exB], processedPointData = Some [exA],
               hasWorker = True, processingCallbacks = (\<lambda>requestId. None),
               analysisResults = EmptyObject, promises = [], postedMessages = [],
               published = []\<rparr>"

section \<open>Properties of the octree\<close>

lemma childIndex_less: "childIndex midX midY midZ p < 8"
  by (simp add: childIndex_def)

lemma assignPoints_Nil: "assignPoints midX midY midZ cs [] = cs"
  by (simp add: assignPoints_def)

lemma assignPoints_Cons:
  "assignPoints midX midY midZ cs (p # ps) =
     assignPoints midX midY midZ
       (cs[childIndex midX midY midZ p :=
             (fst (cs ! childIndex midX midY midZ p), snd (cs ! childIndex midX midY midZ p) @ [p])]) ps"
  by (simp add: assignPoints_def Let_def)

lemma assignPoints_length: "length (assignPoints midX midY midZ cs ps) = length cs"
  by (induction ps arbitrary: cs) (simp_all add: assignPoints_Nil assignPoints_Cons)

lemma mset_concat_update:
  assumes "i < length cs"
  shows "mset (concat (map snd (cs[i := (b, snd (cs ! i) @ [p])])))
         = mset (concat (map snd cs)) + {#p#}"
proof -
  have split: "cs = take i cs @ cs ! i # drop (Suc i) cs"
    using assms by (rule id_take_nth_drop)
  have "mset (concat (map snd (cs[i := (b, snd (cs ! i) @ [p])])))
        = mset (concat (map snd (take i cs @ (b, snd (cs ! i) @ [p]) # drop (Suc i) cs)))"
    using assms by (simp add: upd_conv_take_nth_drop)
  also have "\<dots> = mset (concat (map snd (take i cs @ cs ! i # drop (Suc i) cs))) + {#p#}"
    by simp
  finally show ?thesis using split by simp
qed

lemma mset_assignPoints:
  "length cs = 8 \<Longrightarrow>
   mset (concat (map snd (assignPoints midX midY midZ cs ps))) = mset (concat (map snd cs)) + mset ps"
proof (induction ps arbitrary: cs)
  case Nil
  then show ?case by (simp add: assignPoints_Nil)
next
  case (Cons p ps)
  have lt: "childIndex midX midY midZ p < length cs"
    using Cons.prems childIndex_less [of midX midY midZ p] by simp
  show ?case
    using Cons.prems by (simp add: assignPoints_Cons Cons.IH mset_concat_update [OF lt])
qed

lemma mset_concat_cong:
  "(\<And>c. c \<in> set xs \<Longrightarrow> mset (f c) = mset (h c)) \<Longrightarrow>
   mset (concat (map f xs)) = mset (concat (map h xs))"
  by (induction xs) simp_all

declare subdivideNode.simps [simp del]

lemma mset_leafPoints_subdivideNode:
  "mset (leafPoints (subdivideNode maxDepth minPointsPerNode bb pts depth)) = mset pts"
proof (induction maxDepth minPointsPerNode bb pts depth rule: subdivideNode.induct)
  case (1 maxDepth minPointsPerNode bb pts depth)
  define midX where "midX = (vx (bmin bb) + vx (bmax bb)) / 2"
  define midY where "midY = (vy (bmin bb) + vy (bmax bb)) / 2"
  define midZ where "midZ = (vz (bmin bb) + vz (bmax bb)) / 2"
  define created :: "(bbox \<times> point list) list"
    where "created = map (\<lambda>i. (octant bb midX midY midZ i, [])) [0..<8]"
  define assigned where "assigned = assignPoints midX midY midZ created pts"
  define finish where "finish = (\<lambda>c::bbox \<times> point list.
     if depth < maxDepth \<and> int (length (snd c)) > minPointsPerNode
     then subdivideNode maxDepth minPointsPerNode (fst c) (snd c) (depth + 1)
     else Node (Some (fst c)) (snd c) None)"
  have unfold: "subdivideNode maxDepth minPointsPerNode bb pts depth
                = Node (Some bb) [] (Some (map finish assigned))"
    by (subst subdivideNode.simps)
       (simp add: Let_def midX_def midY_def midZ_def created_def assigned_def finish_def)
  have each: "mset (leafPoints (finish c)) = mset (snd c)" if "c \<in> set assigned" for c
  proof (cases "depth < maxDepth \<and> int (length (snd c)) > minPointsPerNode")
    case True
    then show ?thesis
      using "1.IH" [OF midX_def midY_def midZ_def created_def assigned_def _ that]
      by (simp add: finish_def)
  next
    case False
    then show ?thesis by (auto simp: finish_def)
  qed
  have "mset (concat (map (\<lambda>c. leafPoints (finish c)) assigned)) = mset (concat (map snd assigned))"
    by (rule mset_concat_cong) (rule each)
  moreover have "mset (concat (map snd assigned)) = mset pts"
    unfolding assigned_def by (subst mset_assignPoints) (simp_all add: created_def)
  ultimately show ?case
    by (simp add: unfold comp_def)
qed

lemma internalEmpty_subdivideNode:
  "internalEmpty (subdivideNode maxDepth minPointsPerNode bb pts depth)"
proof (induction maxDepth minPointsPerNode bb pts depth rule: subdivideNode.induct)
  case (1 maxDepth minPointsPerNode bb pts depth)
  define midX where "midX = (vx (bmin bb) + vx (bmax bb)) / 2"
  define midY where "midY = (vy (bmin bb) + vy (bmax bb)) / 2"
  define midZ where "midZ = (vz (bmin bb) + vz (bmax bb)) / 2"
  define created :: "(bbox \<times> point list) list"
    where "created = map (\<lambda>i. (octant bb midX midY midZ i, [])) [0..<8]"
  define assigned where "assigned = assignPoints midX midY midZ created pts"
  define finish where "finish = (\<lambda>c::bbox \<times> point list.
     if depth < maxDepth \<and> int (length (snd c)) > minPointsPerNode
     then subdivideNode maxDepth minPointsPerNode (fst c) (snd c) (depth + 1)
     else Node (Some (fst c)) (snd c) None)"
  have unfold: "subdivideNode maxDepth minPointsPerNode bb pts depth
                = Node (Some bb) [] (Some (map finish assigned))"
    by (subst subdivideNode.simps)
       (simp add: Let_def midX_def midY_def midZ_def created_def assigned_def finish_def)
  have each: "internalEmpty (finish c)" if "c \<in> set assigned" for c
  proof (cases "depth < maxDepth \<and> int (length (snd c)) > minPointsPerNode")
    case True
    then show ?thesis
      using "1.IH" [OF midX_def midY_def midZ_def created_def assigned_def _ that]
      by (simp add: finish_def)
  next
    case False
    then show ?thesis by (auto simp: finish_def)
  qed
  then show ?case
    by (simp add: unfold list_all_iff)
qed

lemma calculateBoundingBox_None: "calculateBoundingBox pts = None \<longleftrightarrow> pts = []"
  by (cases pts) simp_all

text \<open>
  C1: in the tree that \<open>buildOctree\<close> returns, every node with children has an empty point
  list of its own, and the point lists of the leaves together are the input as a multiset:
  no point is lost and none is duplicated. The call returns a tree for every input except
  the empty list with a negative \<open>minPointsPerNode\<close>, where \<open>subdivideNode\<close> reads the
  \<open>null\<close> bounding box and throws.
\<close>

theorem buildOctree_partitions_input:
  "(case buildOctree pts maxDepthArg minPointsArg of
      Inr tree \<Rightarrow> internalEmpty tree \<and> mset (leafPoints tree) = mset pts
    | Inl e \<Rightarrow> pts = [] \<and> (case minPointsArg of None \<Rightarrow> 5 | Some m \<Rightarrow> m) < 0)"
  by (auto simp: buildOctree_def Let_def internalEmpty_subdivideNode mset_leafPoints_subdivideNode
           calculateBoundingBox_None split: option.splits)

theorem buildOctree_partitions_input_witness:
  "buildOctree [exA, exB] (Some 0) (Some 1) = Inr exTree
   \<and> internalEmpty exTree \<and> mset (leafPoints exTree) = mset [exA, exB]"
proof -
  have run: "buildOctree [exA, exB] (Some 0) (Some 1) = Inr exTree"
    by code_simp
  show ?thesis
    using buildOctree_partitions_input
        [where pts = "[exA, exB]" and maxDepthArg = "Some 0" and minPointsArg = "Some 1"] run
    by simp
qed

text \<open>
  C5: the terminal rule of the specification, checked on the tree built from two equal
  points with \<open>maxDepth = 1\<close> and \<open>minPointsPerNode = 1\<close>. The root is subdivided, its first
  child at depth 1 is subdivided again, and the two points end in a leaf at depth 2: the
  guard \<open>depth < maxDepth\<close> of \<open>subdivideNode\<close> reads the depth of the parent.
\<close>

theorem buildOctree_subdivides_at_maxDepth:
  "buildOctree [exA, exA] (Some 1) (Some 1) = Inr deepTree
   \<and> \<not> leafRuleHolds 1 1 0 deepTree"
  by code_simp



text \<open>
  C10: an input no longer than \<open>minPointsPerNode\<close> gives a root that is a leaf holding the
  whole input, with the bounding box computed by \<open>calculateBoundingBox\<close>; for the empty
  input that box is \<open>null\<close>, the point list is empty and there are no children.
\<close>

theorem buildOctree_small_input_is_leaf:
  assumes "int (length pts) \<le> (case minPointsArg of None \<Rightarrow> 5 | Some m \<Rightarrow> m)"
  shows "buildOctree pts maxDepthArg minPointsArg = Inr (Node (calculateBoundingBox pts) pts None)
         \<and> (pts = [] \<longrightarrow> buildOctree pts maxDepthArg minPointsArg = Inr (Node None [] None))"
  using assms by (auto simp: buildOctree_def)

theorem buildOctree_small_input_is_leaf_witness:
  "buildOctree [] (Some 8) (Some 0) = Inr (Node None [] None)
   \<and> buildOctree [\<lparr>px = 1, py = 2, pz = 3, pr = None, pg = None, pb = None\<rparr>] None None
       = Inr (Node (Some \<lparr>bmin = \<lparr>vx = 1, vy = 2, vz = 3\<rparr>, bmax = \<lparr>vx = 1, vy = 2, vz = 3\<rparr>\<rparr>)
               [\<lparr>px = 1, py = 2, pz = 3, pr = None, pg = None, pb = None\<rparr>] None)"
  using buildOctree_small_input_is_leaf [of "[]" "Some 0" "Some 8"]
    buildOctree_small_input_is_leaf
      [of "[\<lparr>px = 1, py = 2, pz = 3, pr = None, pg = None, pb = None\<rparr>]" None None]
  by simp

section \<open>Properties of the rounding\<close>

lemma roundEven_of_int: "roundEven (of_int m) = m"
  by (simp add: roundEven_def)

lemma roundEven_ge: "of_int m \<le> q \<Longrightarrow> m \<le> roundEven q"
proof -
  assume "of_int m \<le> q"
  then have "m \<le> \<lfloor>q\<rfloor>" by (simp add: le_floor_iff)
  then show ?thesis by (simp add: roundEven_def Let_def)
qed

lemma two_powi_nonpos: "j \<le> 0 \<Longrightarrow> (2::real) powi j \<le> 1"
  using power_int_increasing [of j 0 "2::real"] by simp

lemma two_power_ge_one: "(1::real) \<le> 2 ^ j"
  by simp

lemma exponentUp_eq:
  "2 ^ k \<le> a \<Longrightarrow> a < 2 ^ Suc k \<Longrightarrow> k \<le> n \<Longrightarrow> exponentUp n a = int k"
proof (induction n arbitrary: a k)
  case 0
  then show ?case by simp
next
  case (Suc n)
  show ?case
  proof (cases k)
    case 0
    with Suc.prems show ?thesis by simp
  next
    case (Suc j)
    have ge1: "(1::real) \<le> 2 ^ j" by simp
    from Suc.prems Suc have lo: "2 * 2 ^ j \<le> a" and hi: "a < 2 * (2 * 2 ^ j)" and j: "j \<le> n"
      by simp_all
    from lo ge1 have big: "\<not> a < 2" by linarith
    from lo have lo': "2 ^ j \<le> a / 2" by simp
    from hi have hi': "a / 2 < 2 ^ Suc j" by simp
    from Suc.IH [OF lo' hi' j] big Suc show ?thesis by simp
  qed
qed

lemma exponentUp_full: "2 ^ n \<le> a \<Longrightarrow> exponentUp n a = int n"
proof (induction n arbitrary: a)
  case 0
  then show ?case by simp
next
  case (Suc n)
  have ge1: "(1::real) \<le> 2 ^ n" by simp
  from Suc.prems have lo: "2 * 2 ^ n \<le> a" by simp
  from lo ge1 have big: "\<not> a < 2" by linarith
  from lo have "2 ^ n \<le> a / 2" by simp
  from Suc.IH [OF this] big show ?case by simp
qed

lemma exponentUp_upper: "1 \<le> a \<Longrightarrow> a < 2 powi j \<Longrightarrow> exponentUp n a \<le> j - 1"
proof (induction n arbitrary: a j)
  case 0
  have "0 < j"
  proof (rule ccontr)
    assume "\<not> 0 < j"
    then have "(2::real) powi j \<le> 1"
      by (simp add: two_powi_nonpos)
    with 0 show False by simp
  qed
  then show ?case by simp
next
  case (Suc n)
  have pos: "0 < j"
  proof (rule ccontr)
    assume "\<not> 0 < j"
    then have "(2::real) powi j \<le> 1"
      by (simp add: two_powi_nonpos)
    with Suc.prems show False by simp
  qed
  show ?case
  proof (cases "a < 2")
    case True
    with pos show ?thesis by simp
  next
    case False
    have "a / 2 < 2 powi (j - 1)"
      using Suc.prems(2) by (simp add: power_int_diff)
    with Suc.IH [of "a / 2" "j - 1"] False show ?thesis by simp
  qed
qed

lemma exponentDown_upper:
  "0 < a \<Longrightarrow> a < 2 powi j \<Longrightarrow> - int n \<le> j - 1 \<Longrightarrow> exponentDown n a \<le> j - 1"
proof (induction n arbitrary: a j)
  case 0
  then show ?case by simp
next
  case (Suc n)
  show ?case
  proof (cases "1 \<le> a")
    case True
    have "0 < j"
    proof (rule ccontr)
      assume "\<not> 0 < j"
      then have "(2::real) powi j \<le> 1"
        by (simp add: two_powi_nonpos)
      with Suc.prems True show False by simp
    qed
    with True show ?thesis by simp
  next
    case False
    have "2 * a < 2 powi (j + 1)"
      using Suc.prems(2) by (simp add: power_int_add)
    moreover have "- int n \<le> (j + 1) - 1"
      using Suc.prems(3) by simp
    ultimately have "exponentDown n (2 * a) \<le> (j + 1) - 1"
      using Suc.IH [of "2 * a" "j + 1"] Suc.prems(1) by simp
    with False show ?thesis by simp
  qed
qed

lemma exponent_upper:
  assumes "0 < a" and "a < 2 powi j" and "1 - int emax \<le> j - 1" and "1 \<le> emax"
  shows "exponent emax a \<le> j - 1"
proof (cases "1 \<le> a")
  case True
  then show ?thesis
    using exponentUp_upper [OF True assms(2), of "emax + 1"] by (simp add: exponent_def)
next
  case False
  have "- int (emax - 1) \<le> j - 1"
    using assms(3,4) by simp
  then show ?thesis
    using exponentDown_upper [OF assms(1,2), of "emax - 1"] False by (simp add: exponent_def)
qed

lemma roundTo_exact:
  assumes r: "r = of_int m * 2 powi k"
    and m: "\<bar>m\<bar> < 2 ^ p"
    and k: "1 - int emax - (int p - 1) \<le> k"
    and range: "\<bar>r\<bar> < 2 powi (int emax + 1)"
    and emax: "1 \<le> emax"
  shows "roundTo p emax r = Finite r"
proof (cases "r = 0")
  case True
  then show ?thesis by (simp add: roundTo_def)
next
  case False
  define e where "e = exponent emax \<bar>r\<bar>"
  define d where "d = k - (e - (int p - 1))"
  have "\<bar>r\<bar> = of_int \<bar>m\<bar> * 2 powi k"
    by (simp add: r abs_mult)
  also have "\<dots> < 2 ^ p * 2 powi k"
    using m by (simp add: of_int_less_iff [symmetric, where ?'a = real] del: of_int_less_iff)
  finally have below: "\<bar>r\<bar> < 2 powi (int p + k)"
    by (simp add: power_int_add)
  have "e \<le> (int p + k) - 1"
    unfolding e_def using False k emax by (intro exponent_upper [OF _ below]) simp_all
  then have d: "0 \<le> d"
    by (simp add: d_def)
  have "r / 2 powi (e - (int p - 1)) = of_int m * 2 powi d"
    by (simp add: r d_def power_int_diff)
  also have "\<dots> = of_int (m * 2 ^ nat d)"
    using d by (simp add: power_int_def)
  finally have q: "r / 2 powi (e - (int p - 1)) = of_int (m * 2 ^ nat d)" .
  have "of_int (roundEven (r / 2 powi (e - (int p - 1)))) * 2 powi (e - (int p - 1)) = r"
    unfolding q roundEven_of_int using q by (simp add: field_simps)
  then show ?thesis
    using False range by (simp add: roundTo_def Let_def e_def [symmetric])
qed

lemma roundTo_overflow:
  assumes "2 powi (int emax + 1) \<le> r" and "1 \<le> p"
  shows "roundTo p emax r = PosInf"
proof -
  have pos: "0 < r"
    using assms(1) by (rule less_le_trans [rotated]) simp
  have "(2::real) powi (int emax + 1) = 2 ^ (emax + 1)"
    using power_int_of_nat [of "2::real" "emax + 1"] by (simp add: add.commute)
  with assms(1) pos have big: "2 ^ (emax + 1) \<le> \<bar>r\<bar>"
    by simp
  have "(1::real) \<le> 2 ^ (emax + 1)"
    by (rule one_le_power) simp
  with big have one: "1 \<le> \<bar>r\<bar>"
    by linarith
  have e: "exponent emax \<bar>r\<bar> = int emax + 1"
    using exponentUp_full [OF big] one by (simp add: exponent_def)
  define ulp :: real where "ulp = 2 powi (int emax + 1 - (int p - 1))"
  have ulp_pos: "0 < ulp" by (simp add: ulp_def)
  have "int (p - 1) = int p - 1"
    using assms(2) by simp
  then have pw: "(2::real) ^ (p - 1) = 2 powi (int p - 1)"
    using power_int_of_nat [of "2::real" "p - 1"] by simp
  have "(2::real) powi (int p - 1 + (int emax + 1 - (int p - 1)))
        = 2 powi (int p - 1) * 2 powi (int emax + 1 - (int p - 1))"
    by (rule power_int_add) simp
  moreover have "int p - 1 + (int emax + 1 - (int p - 1)) = int emax + 1"
    by simp
  ultimately have "(2::real) ^ (p - 1) * ulp = 2 powi (int emax + 1)"
    unfolding pw ulp_def by (simp only:)
  then have "of_int (2 ^ (p - 1)) \<le> r / ulp"
    using assms(1) ulp_pos by (simp add: field_simps)
  then have "2 ^ (p - 1) \<le> roundEven (r / ulp)"
    by (rule roundEven_ge)
  then have "(2::real) ^ (p - 1) \<le> of_int (roundEven (r / ulp))"
    by (metis of_int_le_iff of_int_numeral of_int_power)
  then have "2 ^ (p - 1) * ulp \<le> of_int (roundEven (r / ulp)) * ulp"
    using ulp_pos by simp
  with \<open>(2::real) ^ (p - 1) * ulp = 2 powi (int emax + 1)\<close>
  have "2 powi (int emax + 1) \<le> \<bar>of_int (roundEven (r / ulp)) * ulp\<bar>"
    by simp
  moreover have "exponent emax r = int emax + 1"
    using e pos by simp
  ultimately show ?thesis
    using pos by (simp add: roundTo_def Let_def ulp_def)
qed

lemma fl_zero: "fl 0 = Finite 0"
  by (simp add: fl_def roundTo_def)

lemma two_powi_1024: "(2::real) powi 1024 = 2 ^ 1024"
  using power_int_of_nat [of "2::real" 1024] by simp

lemma fl_of_int:
  assumes "\<bar>m\<bar> < 2 ^ 53"
  shows "fl (of_int m) = Finite (of_int m)"
proof -
  have "\<bar>real_of_int m\<bar> < 2 ^ 53"
    using assms by (metis of_int_abs of_int_less_iff of_int_numeral of_int_power)
  also have "(2::real) ^ 53 \<le> 2 ^ 1024"
    by (rule power_increasing) simp_all
  finally have "\<bar>real_of_int m\<bar> < 2 powi (int 1023 + 1)"
    using two_powi_1024 by simp
  then show ?thesis
    unfolding fl_def using assms
    by (intro roundTo_exact [where m = m and k = 0]) simp_all
qed

lemma fl_numeral: "(numeral k :: int) < 2 ^ 53 \<Longrightarrow> fl (numeral k) = Finite (numeral k)"
  using fl_of_int [of "numeral k"] by simp

lemma fl_one: "fl 1 = Finite 1"
  using fl_of_int [of 1] by simp

lemma fl_dyadic:
  assumes "\<bar>m\<bar> < 2 ^ 53" and "j \<le> 1074"
  shows "fl (of_int m / 2 ^ j) = Finite (of_int m / 2 ^ j)"
proof -
  have eq: "real_of_int m / 2 ^ j = of_int m * 2 powi (- int j)"
    by (simp add: power_int_minus field_simps)
  have "\<bar>real_of_int m\<bar> < 2 ^ 53"
    using assms(1) by (metis of_int_abs of_int_less_iff of_int_numeral of_int_power)
  moreover have "\<bar>real_of_int m / 2 ^ j\<bar> \<le> \<bar>real_of_int m\<bar>"
  proof -
    have "(1::real) \<le> 2 ^ j" by simp
    then have "\<bar>real_of_int m\<bar> * 1 \<le> \<bar>real_of_int m\<bar> * 2 ^ j"
      by (intro mult_left_mono) simp_all
    then show ?thesis by (simp add: abs_divide divide_le_eq)
  qed
  moreover have "(2::real) ^ 53 \<le> 2 ^ 1024"
    by (rule power_increasing) simp_all
  ultimately have "\<bar>real_of_int m / 2 ^ j\<bar> < 2 powi (int 1023 + 1)"
    using two_powi_1024 by simp
  then show ?thesis
    unfolding fl_def using assms eq
    by (intro roundTo_exact [where m = m and k = "- int j"]) simp_all
qed

lemma fl_overflow: "2 ^ 1024 \<le> r \<Longrightarrow> fl r = PosInf"
  unfolding fl_def using two_powi_1024
  by (intro roundTo_overflow) simp_all

lemma fround_of_int:
  assumes "\<bar>m\<bar> < 2 ^ 24"
  shows "fround (Finite (of_int m)) = Finite (of_int m)"
proof -
  have "\<bar>real_of_int m\<bar> < 2 ^ 24"
    using assms by (metis of_int_abs of_int_less_iff of_int_numeral of_int_power)
  also have "(2::real) ^ 24 \<le> 2 ^ 128"
    by (rule power_increasing) simp_all
  finally have "\<bar>real_of_int m\<bar> < 2 powi (int 127 + 1)"
    using power_int_of_nat [of "2::real" 128] by simp
  then show ?thesis
    using assms by (simp add: roundTo_exact [where m = m and k = 0])
qed

lemma fround_numeral:
  "(numeral k :: int) < 2 ^ 24 \<Longrightarrow> fround (Finite (numeral k)) = Finite (numeral k)"
  using fround_of_int [of "numeral k"] by simp

lemma fround_zero: "fround (Finite 0) = Finite 0"
  by (simp add: roundTo_def)

lemma exponent_tie: "exponent 1023 9007199254740993 = 53"
proof -
  have "exponentUp 1024 9007199254740993 = int 53"
    by (rule exponentUp_eq) simp_all
  then show ?thesis by (simp add: exponent_def)
qed

lemma fl_tie: "fl 9007199254740993 = Finite 9007199254740992"
proof -
  have "roundEven (9007199254740993 / 2) = 4503599627370496"
    by (simp add: roundEven_def Let_def)
  moreover have "(4503599627370496 * 2 :: real) < 2 powi 1024"
    unfolding two_powi_1024 by simp
  ultimately show ?thesis
    by (simp add: fl_def roundTo_def Let_def exponent_tie)
qed

section \<open>Properties of the worker\<close>

lemma flatten_Nil: "flatten [] = []"
  by (simp add: flatten_def)

lemma flatten_Cons: "flatten ((x, y, z) # ps) = x # y # z # flatten ps"
  by (simp add: flatten_def)

lemma flatten_append: "flatten (ps @ qs) = flatten ps @ flatten qs"
  by (simp add: flatten_def)

lemma chunk3_flatten: "chunk3 (flatten ps) = ps"
  by (induction ps) (auto simp: flatten_Nil flatten_Cons)

lemma length_flatten: "length (flatten ps) = 3 * length ps"
  by (induction ps) (auto simp: flatten_Nil flatten_Cons)

lemma distanceFilter_step_computed:
  "distanceFilter_step x y z maxDistance
   = (if numLe (computedDistance (x, y, z)) maxDistance then [x, y, z] else [])"
  by (simp add: distanceFilter_step_def computedDistance_def)

lemma distanceFilter_loop_flatten:
  "snd (distanceFilter_loop i n (flatten ps) maxDistance)
   = flatten (filter (\<lambda>p. numLe (computedDistance p) maxDistance) ps)"
proof (induction ps arbitrary: i)
  case Nil
  then show ?case by (simp add: flatten_Nil)
next
  case (Cons p ps)
  obtain x y z where p: "p = (x, y, z)" by (cases p) auto
  show ?case
    using Cons.IH [of "i + 3"]
    by (simp add: p flatten_Cons distanceFilter_step_computed Let_def split_beta flatten_Nil)
qed

lemma distanceFilter_flatten:
  "snd (distanceFilter (flatten ps) (Some maxDistance))
   = flatten (filter (\<lambda>p. numLe (computedDistance p) maxDistance) ps)"
  by (simp add: distanceFilter_def distanceFilter_loop_flatten)

lemma filterPointCloud_result:
  "snd (filterPointCloud pd opts returnResult) =
     (let threshold = (case opt_threshold opts of None \<Rightarrow> MIN_DISTANCE | Some t \<Rightarrow> t);
          method = (case opt_method opts of None \<Rightarrow> ''statistical'' | Some m \<Rightarrow> m)
      in if method = ''statistical'' \<or> method = ''radius'' then pd
         else snd (distanceFilter pd (Some threshold)))"
  by (simp add: filterPointCloud_def Let_def split_beta statisticalOutlierRemoval_def
        radiusOutlierRemoval_def)

lemma sqrt_100: "sqrt 100 = 10"
  by (rule real_sqrt_unique) simp_all

lemma computedDistance_origin: "computedDistance (exact (0, 0, 0)) = Finite 0"
  by (simp add: computedDistance_def exact_def fl_zero)

lemma computedDistance_ten_x: "computedDistance (exact (10, 0, 0)) = Finite 10"
  by (simp add: computedDistance_def exact_def fl_zero fl_numeral sqrt_100)

lemma computedDistance_ten_y: "computedDistance (exact (0, 10, 0)) = Finite 10"
  by (simp add: computedDistance_def exact_def fl_zero fl_numeral sqrt_100)

lemma fl_big: "fl (2 ^ 1200) = PosInf"
  by (rule fl_overflow) (rule power_increasing, simp_all)

lemma computedDistance_farPoint: "computedDistance (exact farPoint) = PosInf"
  by (simp add: computedDistance_def exact_def farPoint_def fl_big fl_zero del: power_numeral)

lemma distance3D_farPoint: "distance3D farPoint origin = 2 ^ 600"
proof -
  have "sqrt ((2 ^ 600)\<^sup>2) = (2::real) ^ 600"
    by (rule real_sqrt_abs [THEN trans]) (rule abs_of_nonneg, rule zero_le_power, simp)
  then show ?thesis
    by (simp only: distance3D_def farPoint_def origin_def prod.case diff_zero zero_power2
          add_0_right)
qed

text \<open>
  C6, as the code has it: the distance filter returns the points whose distance to the origin as
  the code computes it, \<open>Math.sqrt(x*x + y*y + z*z)\<close> in double precision, is at most
  \<open>maxDistance\<close>, in their original order; \<open>filterPointCloud\<close> reaches it with the method
  \<open>distance\<close> and passes \<open>threshold\<close> as \<open>maxDistance\<close>. Of the points \<open>(0,0,0)\<close>,
  \<open>(10,0,0)\<close>, \<open>(0,10,0)\<close> with \<open>maxDistance = 5\<close> only the first is kept.
\<close>

theorem distanceFilter_keeps_points_within_computed_distance:
  "snd (distanceFilter (flatten ps) (Some maxDistance))
     = flatten (filter (\<lambda>p. numLe (computedDistance p) maxDistance) ps)
   \<and> snd (filterPointCloud (flatten ps)
            (Options (Some maxDistance) (Some ''distance'') None None None None None None None)
            returnResult)
     = flatten (filter (\<lambda>p. numLe (computedDistance p) maxDistance) ps)
   \<and> snd (distanceFilter (flatten (map exact [(0, 0, 0), (10, 0, 0), (0, 10, 0)])) (Some (Finite 5)))
     = flatten [exact (0, 0, 0)]"
proof -
  have "snd (distanceFilter (flatten (map exact [(0, 0, 0), (10, 0, 0), (0, 10, 0)])) (Some (Finite 5)))
        = flatten [exact (0, 0, 0)]"
    unfolding distanceFilter_flatten
    by (simp add: computedDistance_origin computedDistance_ten_x computedDistance_ten_y)
  then show ?thesis
    by (simp add: distanceFilter_flatten filterPointCloud_result)
qed

text \<open>
  The point \<open>(2^600, 0, 0)\<close> lies within \<open>2^1000\<close> of the origin, and the distance filter
  with \<open>maxDistance = 2^1000\<close> removes it: its square overflows to \<open>Infinity\<close>.
\<close>

theorem distanceFilter_drops_point_within_maxDistance:
  "distance3D farPoint origin \<le> 2 ^ 1000
   \<and> snd (distanceFilter (flatten [exact farPoint]) (Some (Finite (2 ^ 1000)))) = []"
proof -
  have "(2::real) ^ 600 \<le> 2 ^ 1000"
    by (rule power_increasing) simp_all
  then have "distance3D farPoint origin \<le> 2 ^ 1000"
    by (simp only: distance3D_farPoint)
  moreover have "snd (distanceFilter (flatten [exact farPoint]) (Some (Finite (2 ^ 1000)))) = []"
    unfolding distanceFilter_flatten
    by (simp add: computedDistance_farPoint flatten_Nil del: power_numeral)
  ultimately show ?thesis by (rule conjI)
qed

text \<open>
  C8, as the code has it: on a point set with fewer than two points the statistical and the radius
  method return the input; every other method runs the distance filter, which returns the
  input when the set is empty or the distance of its point to the origin, as the code
  computes it, is at most \<open>threshold\<close>, and the empty set otherwise.
\<close>

theorem filter_of_fewer_than_two_points:
  assumes "length ps < 2"
  shows "snd (filterPointCloud (flatten ps) opts returnResult) =
     (let threshold = (case opt_threshold opts of None \<Rightarrow> MIN_DISTANCE | Some t \<Rightarrow> t);
          method = (case opt_method opts of None \<Rightarrow> ''statistical'' | Some m \<Rightarrow> m)
      in if method = ''statistical'' \<or> method = ''radius''
            \<or> list_all (\<lambda>p. numLe (computedDistance p) threshold) ps
         then flatten ps else [])"
proof -
  have "filter P ps = (if list_all P ps then ps else [])" for P
  proof (cases ps)
    case Nil
    then show ?thesis by simp
  next
    case (Cons p qs)
    with assms have "qs = []" by simp
    with Cons show ?thesis by simp
  qed
  then show ?thesis
    by (simp add: filterPointCloud_result distanceFilter_flatten Let_def flatten_Nil)
qed

theorem filter_of_fewer_than_two_points_witness:
  "snd (filterPointCloud (flatten [exact (10, 0, 0)])
          (Options (Some (Finite 10)) (Some ''distance'') None None None None None None None) True)
   = flatten [exact (10, 0, 0)]"
proof -
  have len: "length [exact (10, 0, 0)] < 2" by simp
  show ?thesis
    using filter_of_fewer_than_two_points [OF len,
        of "Options (Some (Finite 10)) (Some ''distance'') None None None None None None None" True]
    by (simp add: computedDistance_ten_x)
qed

text \<open>
  The single point \<open>(10, 0, 0)\<close> is removed by the distance method with threshold 5.
\<close>

theorem single_far_point_is_removed:
  "snd (filterPointCloud [Finite 10, Finite 0, Finite 0]
          (Options (Some (Finite 5)) (Some ''distance'') None None None None None None None) True)
   \<noteq> [Finite 10, Finite 0, Finite 0]"
proof -
  have "snd (filterPointCloud (flatten [exact (10, 0, 0)])
          (Options (Some (Finite 5)) (Some ''distance'') None None None None None None None) True) = []"
    by (simp add: filterPointCloud_result distanceFilter_flatten computedDistance_ten_x flatten_Nil)
  then show ?thesis by (simp add: flatten_Cons flatten_Nil exact_def)
qed

lemma downsamplePointCloud_result:
  "snd (downsamplePointCloud pd opts returnResult random) =
     (let rate = (case opt_rate opts of None \<Rightarrow> DEFAULT_SAMPLING_RATE | Some r \<Rightarrow> r);
          method = (case opt_method opts of None \<Rightarrow> ''random'' | Some m \<Rightarrow> m)
      in if method = ''voxel''
         then snd (voxelDownsampling pd
                (Some (case opt_voxelSize opts of None \<Rightarrow> fl (5 / 100)
                       | Some v \<Rightarrow> if v = Finite 0 \<or> v = NaN then fl (5 / 100) else v)))
         else snd (randomDownsampling pd (Some rate) random))"
  by (simp add: downsamplePointCloud_def Let_def split_beta)

lemma optimizeDataStructure_result: "snd (optimizeDataStructure pd opts returnResult) = pd"
  by (simp add: optimizeDataStructure_def Let_def split_beta workerBuildOctree_def
        buildKdTree_def reorderPoints_def)

text \<open>
  C7, as the code has it: a configuration that names an unknown method is not rejected, the stage
  runs with its fallback. A filter method other than \<open>statistical\<close> and \<open>radius\<close> runs the
  distance filter, a downsample method other than \<open>voxel\<close> runs random downsampling, and
  an index method other than \<open>octree\<close> and \<open>kdtree\<close> runs \<open>reorderPoints\<close>.
\<close>

theorem unknown_method_runs_fallback:
  assumes "opt_method opts = Some m"
  shows "(m \<noteq> ''statistical'' \<and> m \<noteq> ''radius'' \<longrightarrow>
         snd (filterPointCloud pd opts returnResult)
         = snd (distanceFilter pd
                  (Some (case opt_threshold opts of None \<Rightarrow> MIN_DISTANCE | Some t \<Rightarrow> t))))
    \<and> (m \<noteq> ''voxel'' \<longrightarrow>
         snd (downsamplePointCloud pd opts returnResult random)
         = snd (randomDownsampling pd
                  (Some (case opt_rate opts of None \<Rightarrow> DEFAULT_SAMPLING_RATE | Some r \<Rightarrow> r))
                  random))
    \<and> (m \<noteq> ''octree'' \<and> m \<noteq> ''kdtree'' \<longrightarrow>
         optimizeDataStructure pd opts False
         = ([Info ''Reordering points for improved memory locality''], pd))"
  using assms
  by (simp add: filterPointCloud_result downsamplePointCloud_result
        optimizeDataStructure_def reorderPoints_def Let_def)

text \<open>
  A filter request with the method \<open>bogus\<close>: the worker announces the stage, runs the
  distance filter and posts its result; it posts no error.
\<close>

theorem unknown_filter_method_runs_distance_filter:
  "onmessage \<lparr>req_cmd = Some ''filter'',
              req_data = Val [Finite 0, Finite 0, Finite 0,  Finite 10, Finite 0, Finite 0],
              req_options = Val (Options (Some (Finite 5)) (Some ''bogus'') None None None None None
                                   None None)\<rparr>
     quietEnv
   = [Stage ''filtering'' (Finite 2), Progress (Finite 0) ''filtering'',
      StageResult ''filtered'' [Finite 0, Finite 0, Finite 0] (Finite 1)]"
proof -
  have data: "[Finite 0, Finite 0, Finite 0,  Finite 10, Finite 0, Finite 0]
              = flatten [exact (0, 0, 0), exact (10, 0, 0)]"
    by (simp add: flatten_def exact_def)
  have kept: "distanceFilter_step (Finite 0) (Finite 0) (Finite 0) (Finite 5)
              = [Finite 0, Finite 0, Finite 0]"
    using computedDistance_origin by (simp add: distanceFilter_step_computed exact_def)
  have dropped: "distanceFilter_step (Finite 10) (Finite 0) (Finite 0) (Finite 5) = []"
    using computedDistance_ten_x by (simp add: distanceFilter_step_computed exact_def)
  show ?thesis
    by (simp add: onmessage_def runStage_def filterPointCloud_def distanceFilter_def Let_def
          progressMsg_def CHUNK_SIZE_def kept dropped ofNat_def fl_zero fl_numeral fl_one)
qed

theorem unknown_method_runs_fallback_witness:
  "snd (filterPointCloud [Finite 0, Finite 0, Finite 0] (withMethod ''bogus'') True)
       = snd (distanceFilter [Finite 0, Finite 0, Finite 0] (Some MIN_DISTANCE))
   \<and> snd (downsamplePointCloud [Finite 0, Finite 0, Finite 0] (withMethod ''bogus'') True
            (\<lambda>k. Finite 0))
       = snd (randomDownsampling [Finite 0, Finite 0, Finite 0] (Some DEFAULT_SAMPLING_RATE)
                (\<lambda>k. Finite 0))
   \<and> optimizeDataStructure [Finite 0, Finite 0, Finite 0] (withMethod ''bogus'') False
       = ([Info ''Reordering points for improved memory locality''],
          [Finite 0, Finite 0, Finite 0])"
proof -
  have m: "opt_method (withMethod ''bogus'') = Some ''bogus''"
    by (simp add: withMethod_def)
  show ?thesis
    using unknown_method_runs_fallback [OF m, of "[Finite 0, Finite 0, Finite 0]" True
        "\<lambda>k. Finite 0"]
    by (simp add: withMethod_def)
qed

section \<open>Voxel downsampling\<close>

lemma voxelAccumulate_loop_flatten:
  "snd (voxelAccumulate_loop i n (flatten ps) voxelSize voxels)
   = foldl (addToVoxels voxelSize) voxels ps"
proof (induction ps arbitrary: i voxels)
  case Nil
  then show ?case by (simp add: flatten_Nil)
next
  case (Cons p ps)
  obtain x y z where p: "p = (x, y, z)" by (cases p) auto
  show ?case
    using Cons.IH [of "i + 3"] by (simp add: p flatten_Cons Let_def split_beta)
qed

lemma voxelCentroid_loop_result:
  "snd (voxelCentroid_loop progress totalVoxels voxels)
   = flatten (map (\<lambda>(k, (s, c)). (numDiv (fst s) (ofNat c), numDiv (fst (snd s)) (ofNat c),
                                  numDiv (snd (snd s)) (ofNat c))) voxels)"
  by (induction progress totalVoxels voxels rule: voxelCentroid_loop.induct)
     (simp_all add: Let_def split_beta flatten_Nil flatten_Cons)

lemma firstOccurrences_Nil: "firstOccurrences [] = []"
  by (simp add: firstOccurrences_def)

lemma firstOccurrences_snoc:
  "firstOccurrences (xs @ [x]) = (if x \<in> set xs then firstOccurrences xs else firstOccurrences xs @ [x])"
  by (simp add: firstOccurrences_def)

lemma set_firstOccurrences: "set (firstOccurrences xs) = set xs"
  by (simp add: firstOccurrences_def)

lemma distinct_firstOccurrences: "distinct (firstOccurrences xs)"
  by (simp add: firstOccurrences_def)

lemma map_of_tabulate:
  "map_of (map (\<lambda>k. (k, f k)) ks) k = (if k \<in> set ks then Some (f k) else None)"
  by (induction ks) auto

lemma update_tabulate_new:
  "k \<notin> set ks \<Longrightarrow> AList.update k v (map (\<lambda>j. (j, f j)) ks) = map (\<lambda>j. (j, f j)) ks @ [(k, v)]"
  by (induction ks) auto

lemma update_tabulate_old:
  "distinct ks \<Longrightarrow> k \<in> set ks \<Longrightarrow>
   AList.update k v (map (\<lambda>j. (j, f j)) ks) = map (\<lambda>j. (j, if j = k then v else f j)) ks"
proof (induction ks)
  case Nil
  then show ?case by simp
next
  case (Cons a ks)
  show ?case
  proof (cases "a = k")
    case True
    with Cons.prems have "k \<notin> set ks" by simp
    then have "map (\<lambda>j. (j, if j = k then v else f j)) ks = map (\<lambda>j. (j, f j)) ks"
      by (induction ks) auto
    with True show ?thesis by simp
  next
    case False
    with Cons show ?thesis by simp
  qed
qed

lemma runningSum_snoc:
  "runningSum (xs @ [x]) = (if xs = [] then x else numAdd (runningSum xs) x)"
  by (cases xs) simp_all

lemma aggregate_snoc_other:
  "voxelKeyOf voxelSize p \<noteq> k \<Longrightarrow> aggregate voxelSize (ps @ [p]) k = aggregate voxelSize ps k"
  by (simp add: aggregate_def)

lemma aggregate_snoc_same:
  assumes "voxelKeyOf voxelSize (x, y, z) \<in> voxelKeyOf voxelSize ` set ps"
  shows "aggregate voxelSize (ps @ [(x, y, z)]) (voxelKeyOf voxelSize (x, y, z)) =
     (case aggregate voxelSize ps (voxelKeyOf voxelSize (x, y, z)) of
        ((sx, sy, sz), c) \<Rightarrow> ((numAdd sx x, numAdd sy y, numAdd sz z), c + 1))"
proof -
  from assms obtain q where "q \<in> set ps"
    and "voxelKeyOf voxelSize q = voxelKeyOf voxelSize (x, y, z)"
    by (metis imageE)
  then have "filter (\<lambda>p. voxelKeyOf voxelSize p = voxelKeyOf voxelSize (x, y, z)) ps \<noteq> []"
    by (auto simp: filter_empty_conv)
  then show ?thesis
    by (simp add: aggregate_def Let_def runningSum_snoc)
qed

lemma aggregate_snoc_fresh:
  assumes "voxelKeyOf voxelSize (x, y, z) \<notin> voxelKeyOf voxelSize ` set ps"
  shows "aggregate voxelSize (ps @ [(x, y, z)]) (voxelKeyOf voxelSize (x, y, z)) = ((x, y, z), 1)"
proof -
  have "voxelKeyOf voxelSize p \<noteq> voxelKeyOf voxelSize (x, y, z)" if "p \<in> set ps" for p
    using assms that by (metis imageI)
  then have "filter (\<lambda>p. voxelKeyOf voxelSize p = voxelKeyOf voxelSize (x, y, z)) ps = []"
    by (simp add: filter_empty_conv)
  then show ?thesis by (simp add: aggregate_def)
qed

lemma addToVoxels_tabulate:
  "addToVoxels voxelSize
      (map (\<lambda>k. (k, aggregate voxelSize ps k)) (firstOccurrences (map (voxelKeyOf voxelSize) ps))) p
   = map (\<lambda>k. (k, aggregate voxelSize (ps @ [p]) k))
       (firstOccurrences (map (voxelKeyOf voxelSize) (ps @ [p])))"
proof -
  obtain x y z where p: "p = (x, y, z)" by (cases p) auto
  define key where "key = voxelKeyOf voxelSize (x, y, z)"
  define ks where "ks = firstOccurrences (map (voxelKeyOf voxelSize) ps)"
  have key_eq: "(numFloor (numDiv x voxelSize), numFloor (numDiv y voxelSize),
                 numFloor (numDiv z voxelSize)) = key"
    by (simp add: key_def voxelKeyOf_def)
  have set_ks: "set ks = voxelKeyOf voxelSize ` set ps"
    by (simp add: ks_def set_firstOccurrences)
  show ?thesis
  proof (cases "key \<in> set ks")
    case True
    obtain sx sy sz c where agg: "aggregate voxelSize ps key = ((sx, sy, sz), c)"
      by (cases "aggregate voxelSize ps key") auto
    have new: "aggregate voxelSize (ps @ [(x, y, z)]) key
               = ((numAdd sx x, numAdd sy y, numAdd sz z), c + 1)"
      using aggregate_snoc_same [of voxelSize x y z ps] agg True set_ks by (simp add: key_def)
    have step: "addToVoxels voxelSize (map (\<lambda>k. (k, aggregate voxelSize ps k)) ks) (x, y, z)
          = map (\<lambda>j. (j, if j = key then ((numAdd sx x, numAdd sy y, numAdd sz z), c + 1)
                          else aggregate voxelSize ps j)) ks"
      using True
      by (simp add: addToVoxels_def Let_def key_eq map_of_tabulate agg update_tabulate_old
            ks_def distinct_firstOccurrences)
    have same: "map (\<lambda>j. (j, if j = key then ((numAdd sx x, numAdd sy y, numAdd sz z), c + 1)
                          else aggregate voxelSize ps j)) ks
                = map (\<lambda>j. (j, aggregate voxelSize (ps @ [(x, y, z)]) j)) ks"
    proof (rule map_cong [OF refl])
      fix j
      show "(j, if j = key then ((numAdd sx x, numAdd sy y, numAdd sz z), c + 1)
                else aggregate voxelSize ps j)
            = (j, aggregate voxelSize (ps @ [(x, y, z)]) j)"
      proof (cases "j = key")
        case True
        with new show ?thesis by simp
      next
        case False
        then have "voxelKeyOf voxelSize (x, y, z) \<noteq> j"
          unfolding key_def by metis
        with False show ?thesis by (simp add: aggregate_snoc_other)
      qed
    qed
    have final: "addToVoxels voxelSize (map (\<lambda>k. (k, aggregate voxelSize ps k)) ks) (x, y, z)
          = map (\<lambda>j. (j, aggregate voxelSize (ps @ [(x, y, z)]) j)) ks"
      by (rule trans [OF step same])
    show ?thesis
      using True set_ks
      by (simp add: p ks_def [symmetric] firstOccurrences_snoc key_def [symmetric]
            set_firstOccurrences final)
  next
    case False
    have new: "aggregate voxelSize (ps @ [(x, y, z)]) key = ((x, y, z), 1)"
      using aggregate_snoc_fresh [of voxelSize x y z ps] False set_ks by (simp add: key_def)
    have step: "addToVoxels voxelSize (map (\<lambda>k. (k, aggregate voxelSize ps k)) ks) (x, y, z)
          = map (\<lambda>j. (j, aggregate voxelSize ps j)) ks @ [(key, ((x, y, z), 1))]"
      using False by (simp add: addToVoxels_def Let_def key_eq map_of_tabulate update_tabulate_new)
    have same: "map (\<lambda>j. (j, aggregate voxelSize ps j)) ks
               = map (\<lambda>j. (j, aggregate voxelSize (ps @ [(x, y, z)]) j)) ks"
    proof (rule map_cong [OF refl])
      fix j
      assume "j \<in> set ks"
      with False have "voxelKeyOf voxelSize (x, y, z) \<noteq> j"
        unfolding key_def by metis
      then show "(j, aggregate voxelSize ps j) = (j, aggregate voxelSize (ps @ [(x, y, z)]) j)"
        by (simp add: aggregate_snoc_other)
    qed
    have final: "addToVoxels voxelSize (map (\<lambda>k. (k, aggregate voxelSize ps k)) ks) (x, y, z)
          = map (\<lambda>j. (j, aggregate voxelSize (ps @ [(x, y, z)]) j)) ks @ [(key, ((x, y, z), 1))]"
      by (rule trans [OF step]) (simp only: same)
    show ?thesis
      using False set_ks new
      by (simp add: p ks_def [symmetric] firstOccurrences_snoc key_def [symmetric]
            set_firstOccurrences final)
  qed
qed

lemma foldl_addToVoxels:
  "foldl (addToVoxels voxelSize) [] ps
   = map (\<lambda>k. (k, aggregate voxelSize ps k)) (firstOccurrences (map (voxelKeyOf voxelSize) ps))"
proof (induction ps rule: rev_induct)
  case Nil
  then show ?case by (simp add: firstOccurrences_Nil)
next
  case (snoc p ps)
  then show ?case by (simp add: addToVoxels_tabulate)
qed

lemma voxelDownsampling_flatten:
  "snd (voxelDownsampling (flatten ps) (Some voxelSize))
   = flatten (map (\<lambda>k. centroid (filter (\<lambda>p. voxelKeyOf voxelSize p = k) ps))
                (firstOccurrences (map (voxelKeyOf voxelSize) ps)))"
  by (simp add: voxelDownsampling_def Let_def split_beta voxelAccumulate_loop_flatten
        voxelCentroid_loop_result foldl_addToVoxels comp_def aggregate_def centroid_def)

lemma fl_half: "fl (1 / 2) = Finite (1 / 2)"
  using fl_dyadic [of 1 1] by simp

lemma fl_two_53: "fl 9007199254740992 = Finite 9007199254740992"
proof -
  have "(9007199254740992::real) < 2 powi (int 1023 + 1)"
    using two_powi_1024 by simp
  then show ?thesis
    unfolding fl_def
    by (intro roundTo_exact [where m = 4503599627370496 and k = 1]) simp_all
qed

lemma fl_two_53_plus_2: "fl 9007199254740994 = Finite 9007199254740994"
proof -
  have "(9007199254740994::real) < 2 powi (int 1023 + 1)"
    using two_powi_1024 by simp
  then show ?thesis
    unfolding fl_def
    by (intro roundTo_exact [where m = 4503599627370497 and k = 1]) simp_all
qed

lemma fl_128th: "fl (1 / 128) = Finite (1 / 128)"
  using fl_dyadic [of 1 7] by simp

lemma fl_two_minus_60: "fl (1 / 1152921504606846976) = Finite (1 / 1152921504606846976)"
  using fl_dyadic [of 1 60] by simp

lemma fl_two_51_half: "fl (4503599627370497 / 2) = Finite (4503599627370497 / 2)"
  using fl_dyadic [of 4503599627370497 1] by simp

lemma unitCube_keys:
  "map (voxelKeyOf (Finite 2)) (map exact unitCube) = replicate 8 (Finite 0, Finite 0, Finite 0)"
  by (simp add: unitCube_def exact_def voxelKeyOf_def fl_zero fl_half eval_nat_numeral)

lemma unitCube_voxel:
  "snd (voxelDownsampling (flatten (map exact unitCube)) (Some (Finite 2)))
   = [Finite (1 / 2), Finite (1 / 2), Finite (1 / 2)]"
proof -
  have keys: "firstOccurrences (map (voxelKeyOf (Finite 2)) (map exact unitCube))
              = [(Finite 0, Finite 0, Finite 0)]"
    unfolding unitCube_keys by (simp add: firstOccurrences_def eval_nat_numeral)
  have same: "filter (\<lambda>p. voxelKeyOf (Finite 2) p = (Finite 0, Finite 0, Finite 0)) (map exact unitCube)
              = map exact unitCube"
    by (simp add: unitCube_def exact_def voxelKeyOf_def fl_zero fl_half)
  have mean: "centroid (map exact unitCube) = (Finite (1 / 2), Finite (1 / 2), Finite (1 / 2))"
    by (simp add: centroid_def unitCube_def exact_def ofNat_def fl_zero fl_one fl_numeral fl_half)
  show ?thesis
    unfolding voxelDownsampling_flatten keys list.map same mean
    by (simp add: flatten_def)
qed

lemma bigFirst_keys:
  "map (voxelKeyOf (Finite (2 ^ 60))) (map exact bigFirst) = replicate 4 (Finite 0, Finite 0, Finite 0)"
  by (simp add: bigFirst_def exact_def voxelKeyOf_def fl_zero fl_128th fl_two_minus_60
        eval_nat_numeral)

lemma bigLast_keys:
  "map (voxelKeyOf (Finite (2 ^ 60))) (map exact bigLast) = replicate 4 (Finite 0, Finite 0, Finite 0)"
  by (simp add: bigLast_def exact_def voxelKeyOf_def fl_zero fl_128th fl_two_minus_60
        eval_nat_numeral)

lemma bigFirst_voxel:
  "snd (voxelDownsampling (flatten (map exact bigFirst)) (Some (Finite (2 ^ 60))))
   = [Finite 2251799813685248, Finite 0, Finite 0]"
proof -
  have keys: "firstOccurrences (map (voxelKeyOf (Finite (2 ^ 60))) (map exact bigFirst))
              = [(Finite 0, Finite 0, Finite 0)]"
    unfolding bigFirst_keys by (simp add: firstOccurrences_def eval_nat_numeral)
  have same: "filter (\<lambda>p. voxelKeyOf (Finite (2 ^ 60)) p = (Finite 0, Finite 0, Finite 0)) (map exact bigFirst)
              = map exact bigFirst"
    by (simp add: bigFirst_def exact_def voxelKeyOf_def fl_zero fl_128th fl_two_minus_60)
  have mean: "centroid (map exact bigFirst) = (Finite 2251799813685248, Finite 0, Finite 0)"
    by (simp add: centroid_def bigFirst_def exact_def ofNat_def fl_zero fl_numeral fl_tie fl_two_53)
  show ?thesis
    unfolding voxelDownsampling_flatten keys list.map same mean
    by (simp add: flatten_def)
qed

lemma bigLast_voxel:
  "snd (voxelDownsampling (flatten (map exact bigLast)) (Some (Finite (2 ^ 60))))
   = [Finite (4503599627370497 / 2), Finite 0, Finite 0]"
proof -
  have keys: "firstOccurrences (map (voxelKeyOf (Finite (2 ^ 60))) (map exact bigLast))
              = [(Finite 0, Finite 0, Finite 0)]"
    unfolding bigLast_keys by (simp add: firstOccurrences_def eval_nat_numeral)
  have same: "filter (\<lambda>p. voxelKeyOf (Finite (2 ^ 60)) p = (Finite 0, Finite 0, Finite 0)) (map exact bigLast)
              = map exact bigLast"
    by (simp add: bigLast_def exact_def voxelKeyOf_def fl_zero fl_128th fl_two_minus_60)
  have mean: "centroid (map exact bigLast) = (Finite (4503599627370497 / 2), Finite 0, Finite 0)"
    by (simp add: centroid_def bigLast_def exact_def ofNat_def fl_zero fl_numeral fl_two_53_plus_2
          fl_two_51_half)
  show ?thesis
    unfolding voxelDownsampling_flatten keys list.map same mean
    by (simp add: flatten_def)
qed

text \<open>
  C4, as the code has it: for every \<open>voxelSize\<close>, voxel downsampling groups the points by
  the key the code computes, the floors of the rounded quotients \<open>x / voxelSize\<close>,
  \<open>y / voxelSize\<close>, \<open>z / voxelSize\<close>, and returns one point for each occupied voxel, the
  voxels in the order of their first point. The point of a voxel is the sum of its points,
  added in the order of the input with every addition rounded, divided by their number.
  \<open>downsamplePointCloud\<close> reaches it with the method \<open>voxel\<close>, a size of \<open>0\<close> or \<open>NaN\<close> replaced
  by \<open>0.05\<close>. The eight corners of the unit cube with \<open>voxelSize = 2\<close> give the single point
  \<open>(1/2, 1/2, 1/2)\<close>.
\<close>

theorem voxelDownsampling_one_centroid_per_voxel:
  "snd (voxelDownsampling (flatten ps) (Some voxelSize))
     = flatten (map (\<lambda>k. centroid (filter (\<lambda>p. voxelKeyOf voxelSize p = k) ps))
                  (firstOccurrences (map (voxelKeyOf voxelSize) ps)))
   \<and> distinct (firstOccurrences (map (voxelKeyOf voxelSize) ps))
   \<and> set (firstOccurrences (map (voxelKeyOf voxelSize) ps)) = voxelKeyOf voxelSize ` set ps
   \<and> snd (downsamplePointCloud (flatten ps)
            (Options None (Some ''voxel'') None (Some voxelSize) None None None None None)
            returnResult random)
        = snd (voxelDownsampling (flatten ps)
                 (Some (if voxelSize = Finite 0 \<or> voxelSize = NaN then fl (5 / 100) else voxelSize)))
   \<and> snd (voxelDownsampling (flatten (map exact unitCube)) (Some (Finite 2)))
        = [Finite (1 / 2), Finite (1 / 2), Finite (1 / 2)]"
proof -
  have entry: "snd (downsamplePointCloud (flatten ps)
            (Options None (Some ''voxel'') None (Some voxelSize) None None None None None)
            returnResult random)
        = snd (voxelDownsampling (flatten ps)
                 (Some (if voxelSize = Finite 0 \<or> voxelSize = NaN then fl (5 / 100) else voxelSize)))"
    by (simp add: downsamplePointCloud_result)
  show ?thesis
    using voxelDownsampling_flatten [of ps voxelSize]
      distinct_firstOccurrences [of "map (voxelKeyOf voxelSize) ps"]
      set_firstOccurrences [of "map (voxelKeyOf voxelSize) ps"]
      entry unitCube_voxel
    by (simp only: set_map simp_thms)
qed

text \<open>
  The point of a voxel is not the arithmetic mean of its points, and it depends on the
  order of the input: \<open>bigFirst\<close> and \<open>bigLast\<close> are the same four points, all in one voxel of
  edge \<open>2^60\<close>, with the mean \<open>(2^51 + 1/2, 0, 0)\<close>. In the order \<open>bigFirst\<close> both additions
  of \<open>1\<close> to \<open>2^53\<close> are rounded away and the code returns \<open>(2^51, 0, 0)\<close>; in the order
  \<open>bigLast\<close> it returns \<open>(2^51 + 1/2, 0, 0)\<close>.
\<close>

theorem voxelDownsampling_depends_on_order:
  "mset bigLast = mset bigFirst
   \<and> realCentroid bigFirst = (4503599627370497 / 2, 0, 0)
   \<and> snd (voxelDownsampling (flatten (map exact bigFirst)) (Some (Finite (2 ^ 60))))
       = [Finite 2251799813685248, Finite 0, Finite 0]
   \<and> snd (voxelDownsampling (flatten (map exact bigLast)) (Some (Finite (2 ^ 60))))
       = [Finite (4503599627370497 / 2), Finite 0, Finite 0]"
proof -
  have "mset bigLast = mset bigFirst"
    by (simp add: bigLast_def bigFirst_def)
  moreover have "realCentroid bigFirst = (4503599627370497 / 2, 0, 0)"
    by (simp add: realCentroid_def bigFirst_def)
  ultimately show ?thesis
    using bigFirst_voxel bigLast_voxel by (simp only: simp_thms)
qed

section \<open>The statistical filter and the transform\<close>

lemma sqrt_9: "sqrt 9 = 3"
  by (rule real_sqrt_unique) simp_all

lemma outlierSet_distances: "map (meanNeighborDistance outlierSet) [0..<3] = [3 / 2, 3 / 2, 3]"
  by (simp add: meanNeighborDistance_def outlierSet_def distance3D_def upt_rec sqrt_9)

lemma statisticalSpec_unfold:
  assumes "length ps = n"
    and "map (meanNeighborDistance ps) [0..<n] = d"
    and "sum_list d / real n = m"
    and "sum_list (map (\<lambda>v. (v - m)\<^sup>2) d) / real n = v"
  shows "statisticalSpec ps k = map (\<lambda>i. ps ! i) (filter (\<lambda>i. d ! i \<le> m + k * sqrt v) [0..<n])"
  using assms by (auto simp: statisticalSpec_def Let_def)

lemma statisticalSpec_outlierSet: "statisticalSpec outlierSet 1 = [(0, 0, 0), (0, 0, 0)]"
proof -
  have len: "length outlierSet = 3"
    by (simp add: outlierSet_def)
  have mean: "sum_list [3 / 2, 3 / 2, 3 :: real] / real 3 = 2"
    by simp
  have var: "sum_list (map (\<lambda>v. (v - 2)\<^sup>2) [3 / 2, 3 / 2, 3 :: real]) / real 3 = 1 / 2"
    by (simp add: power2_eq_square)
  have lo: "0 \<le> sqrt (1 / 2 :: real)"
    by simp
  have hi: "sqrt (1 / 2 :: real) < 1"
    by simp
  have keep: "filter (\<lambda>i. [3 / 2, 3 / 2, 3 :: real] ! i \<le> 2 + 1 * sqrt (1 / 2)) [0..<3] = [0, 1]"
    using lo hi by (simp add: upt_rec)
  show ?thesis
    unfolding statisticalSpec_unfold [OF len outlierSet_distances mean var] keep
    by (simp add: outlierSet_def)
qed

text \<open>
  C2: the statistical method on two points at the origin and one at distance 3, with
  \<open>stdDevMultiplier = 1\<close>. The mean neighbour distances are \<open>3/2\<close>, \<open>3/2\<close> and \<open>3\<close>, their
  mean is \<open>2\<close> and their standard deviation \<open>sqrt (1/2)\<close>, so the rule of the specification
  rejects the third point; \<open>statisticalOutlierRemoval\<close> returns all three.
\<close>

theorem statisticalOutlierRemoval_keeps_outlier:
  "snd (filterPointCloud (flatten (map exact outlierSet))
          (Options (Some (Finite 1)) (Some ''statistical'') None None None None None None None)
          returnResult)
     = flatten (map exact outlierSet)
   \<and> statisticalSpec outlierSet 1 = [(0, 0, 0), (0, 0, 0)]"
  by (simp add: filterPointCloud_result statisticalSpec_outlierSet)

text \<open>
  C3: the point \<open>(2, 4, 6)\<close> under the matrix whose only entry different from the identity
  is \<open>w = 2\<close>. The homogeneous transform is \<open>(1, 2, 3)\<close> in either layout, and
  \<open>applyTransformLocal\<close> returns it; \<open>applyTransformation\<close> of the worker never reads the
  entries 12 to 15 and returns \<open>(2, 4, 6)\<close>.
\<close>

theorem applyTransformation_ignores_w:
  "snd (applyTransformation [Finite 2, Finite 4, Finite 6] (map Finite scaleW))
     = [Finite 2, Finite 4, Finite 6]
   \<and> snd (transformPointCloud [Finite 2, Finite 4, Finite 6]
            (Options None None None None (Some (map Finite scaleW)) None None None None)
            returnResult)
       = [Finite 2, Finite 4, Finite 6]
   \<and> applyMatrixRows scaleW (2, 4, 6) = (1, 2, 3)
   \<and> applyMatrixColumns scaleW (2, 4, 6) = (1, 2, 3)
   \<and> applyTransformLocal [\<lparr>px = 2, py = 4, pz = 6, pr = None, pg = None, pb = None\<rparr>] (Some scaleW)
       = [\<lparr>px = 1, py = 2, pz = 3, pr = None, pg = None, pb = None\<rparr>]"
  by (simp add: applyTransformation_def transformPointCloud_def applyTransformation_step_def
        matrixEntry_def applyMatrixRows_def applyMatrixColumns_def applyTransformLocal_def
        scaleW_def Let_def split_beta fl_zero fl_numeral fround_numeral del: fround.simps)

section \<open>Requests answered with an error\<close>

lemma workerReceives_no_cmd: "req_cmd (workerReceives m) = None"
  by (cases m) simp_all

lemma workerAnswers_last:
  "postedMessages s = msgs @ [m] \<Longrightarrow> workerAnswers s env = [ErrorMsg ''Unknown command: undefined'']"
  by (simp add: workerAnswers_def onmessage_def workerReceives_no_cmd split: list.splits)

lemma afterAnswers_last:
  "postedMessages s = msgs @ [m] \<Longrightarrow> afterAnswers s env = s"
  by (simp add: afterAnswers_def workerAnswers_last receiveAll_def)

lemma error_after_request:
  assumes "processingCallbacks s1 requestId = Some (PointsCallback p)"
    and "p < length (promises s1)"
    and "promises s1 ! p = Pending"
  shows "promises (workerOnmessage (WorkerError message requestId) s1) ! p = Rejected message"
  using assms
  by (simp add: invokeCallback_def settle_def publish_def Let_def)

text \<open>
  C9: a request \<open>processData\<close>, \<open>applyFilter\<close> or \<open>applyTransform\<close> made while a worker
  exists and the data it needs is present. The worker finds no \<open>cmd\<close> in the message of
  the request and answers with the single message \<open>{status: 'error', error: 'Unknown
  command: undefined'}\<close>. The handler of the processor module ignores it: the promise of
  the request stays pending and the state of the module is what it was after the request
  was posted, so \<open>processedPointData\<close> is unchanged and nothing is published. Had the error
  arrived as the handler reads one, \<open>{type: 'error', data: {message}, requestId}\<close>, the
  promise would be rejected with it.
\<close>

theorem worker_error_leaves_promise_pending:
  assumes "hasWorker s"
  shows "(rawPointData s \<noteq> None \<longrightarrow>
           (let (p, s1) = processData requestId opts s;
                s2 = afterAnswers s1 env
            in workerAnswers s1 env = [ErrorMsg ''Unknown command: undefined'']
               \<and> promises s2 ! p = Pending
               \<and> s2 = s1
               \<and> processedPointData s2 = processedPointData s
               \<and> promises (workerOnmessage (WorkerError ''Unknown command: undefined'' requestId) s1) ! p
                   = Rejected ''Unknown command: undefined''))
       \<and> (processedPointData s \<noteq> None \<longrightarrow>
           (let (p, s1) = applyFilter requestId filterType params s;
                s2 = afterAnswers s1 env
            in workerAnswers s1 env = [ErrorMsg ''Unknown command: undefined'']
               \<and> promises s2 ! p = Pending
               \<and> s2 = s1
               \<and> processedPointData s2 = processedPointData s
               \<and> promises (workerOnmessage (WorkerError ''Unknown command: undefined'' requestId) s1) ! p
                   = Rejected ''Unknown command: undefined''))
       \<and> (processedPointData s \<noteq> None \<longrightarrow>
           (let (p, s1) = applyTransform requestId transformMatrix s;
                s2 = afterAnswers s1 env
            in workerAnswers s1 env = [ErrorMsg ''Unknown command: undefined'']
               \<and> promises s2 ! p = Pending
               \<and> s2 = s1
               \<and> processedPointData s2 = processedPointData s
               \<and> promises (workerOnmessage (WorkerError ''Unknown command: undefined'' requestId) s1) ! p
                   = Rejected ''Unknown command: undefined''))"
proof (intro conjI impI)
  assume "rawPointData s \<noteq> None"
  then obtain raw where raw: "rawPointData s = Some raw" by auto
  define s1 where "s1 = snd (processData requestId opts s)"
  have p: "fst (processData requestId opts s) = length (promises s)"
    using raw assms by (simp add: processData_def newPromise_def Let_def)
  have posted: "postedMessages s1 = postedMessages s @ [PostProcessData requestId raw opts]"
    and callback: "processingCallbacks s1 requestId = Some (PointsCallback (length (promises s)))"
    and len: "length (promises s) < length (promises s1)"
    and pending: "promises s1 ! length (promises s) = Pending"
    and same: "processedPointData s1 = processedPointData s"
    using raw assms by (simp_all add: s1_def processData_def newPromise_def Let_def)
  show "let (p, s1) = processData requestId opts s;
            s2 = afterAnswers s1 env
        in workerAnswers s1 env = [ErrorMsg ''Unknown command: undefined'']
           \<and> promises s2 ! p = Pending
           \<and> s2 = s1
           \<and> processedPointData s2 = processedPointData s
           \<and> promises (workerOnmessage (WorkerError ''Unknown command: undefined'' requestId) s1) ! p
               = Rejected ''Unknown command: undefined''"
    using workerAnswers_last [OF posted, of env] afterAnswers_last [OF posted, of env]
      error_after_request [OF callback len pending] pending same p
    by (simp add: split_beta Let_def s1_def)
next
  assume "processedPointData s \<noteq> None"
  then obtain processed where processed: "processedPointData s = Some processed" by auto
  define s1 where "s1 = snd (applyFilter requestId filterType params s)"
  have p: "fst (applyFilter requestId filterType params s) = length (promises s)"
    using processed assms by (simp add: applyFilter_def newPromise_def Let_def)
  have posted: "postedMessages s1
        = postedMessages s @ [PostApplyFilter requestId filterType processed params]"
    and callback: "processingCallbacks s1 requestId = Some (PointsCallback (length (promises s)))"
    and len: "length (promises s) < length (promises s1)"
    and pending: "promises s1 ! length (promises s) = Pending"
    and same: "processedPointData s1 = processedPointData s"
    using processed assms by (simp_all add: s1_def applyFilter_def newPromise_def Let_def)
  show "let (p, s1) = applyFilter requestId filterType params s;
            s2 = afterAnswers s1 env
        in workerAnswers s1 env = [ErrorMsg ''Unknown command: undefined'']
           \<and> promises s2 ! p = Pending
           \<and> s2 = s1
           \<and> processedPointData s2 = processedPointData s
           \<and> promises (workerOnmessage (WorkerError ''Unknown command: undefined'' requestId) s1) ! p
               = Rejected ''Unknown command: undefined''"
    using workerAnswers_last [OF posted, of env] afterAnswers_last [OF posted, of env]
      error_after_request [OF callback len pending] pending same p
    by (simp add: split_beta Let_def s1_def)
next
  assume "processedPointData s \<noteq> None"
  then obtain processed where processed: "processedPointData s = Some processed" by auto
  define s1 where "s1 = snd (applyTransform requestId transformMatrix s)"
  have p: "fst (applyTransform requestId transformMatrix s) = length (promises s)"
    using processed assms by (simp add: applyTransform_def newPromise_def Let_def)
  have posted: "postedMessages s1
        = postedMessages s @ [PostApplyTransform requestId processed transformMatrix]"
    and callback: "processingCallbacks s1 requestId = Some (PointsCallback (length (promises s)))"
    and len: "length (promises s) < length (promises s1)"
    and pending: "promises s1 ! length (promises s) = Pending"
    and same: "processedPointData s1 = processedPointData s"
    using processed assms by (simp_all add: s1_def applyTransform_def newPromise_def Let_def)
  show "let (p, s1) = applyTransform requestId transformMatrix s;
            s2 = afterAnswers s1 env
        in workerAnswers s1 env = [ErrorMsg ''Unknown command: undefined'']
           \<and> promises s2 ! p = Pending
           \<and> s2 = s1
           \<and> processedPointData s2 = processedPointData s
           \<and> promises (workerOnmessage (WorkerError ''Unknown command: undefined'' requestId) s1) ! p
               = Rejected ''Unknown command: undefined''"
    using workerAnswers_last [OF posted, of env] afterAnswers_last [OF posted, of env]
      error_after_request [OF callback len pending] pending same p
    by (simp add: split_beta Let_def s1_def)
qed

theorem worker_error_leaves_promise_pending_witness:
  "(let (p, s1) = processData ''req_1'' exOptions exState;
        s2 = afterAnswers s1 quietEnv
    in workerAnswers s1 quietEnv = [ErrorMsg ''Unknown command: undefined'']
       \<and> promises s2 ! p = Pending
       \<and> processedPointData s2 = Some [exA])
   \<and> (let (p, s1) = applyFilter ''req_2'' ''noise'' exParams exState;
        s2 = afterAnswers s1 quietEnv
    in workerAnswers s1 quietEnv = [ErrorMsg ''Unknown command: undefined'']
       \<and> promises s2 ! p = Pending
       \<and> processedPointData s2 = Some [exA])
   \<and> (let (p, s1) = applyTransform ''req_3'' None exState;
        s2 = afterAnswers s1 quietEnv
    in workerAnswers s1 quietEnv = [ErrorMsg ''Unknown command: undefined'']
       \<and> promises s2 ! p = Pending
       \<and> processedPointData s2 = Some [exA])"
proof -
  have w: "hasWorker exState" by (simp add: exState_def)
  have raw: "rawPointData exState \<noteq> None" by (simp add: exState_def)
  have processed: "processedPointData exState = Some [exA]" by (simp add: exState_def)
  note all = worker_error_leaves_promise_pending [OF w, where env = quietEnv
      and opts = exOptions and filterType = "''noise''" and params = exParams
      and transformMatrix = None]
  show ?thesis
    using all [where requestId = "''req_1''"] all [where requestId = "''req_2''"]
      all [where requestId = "''req_3''"] raw processed
    by (auto simp: split_beta Let_def)
qed

end
